theory Spec2Isabelle
  imports Complex_Main "HOL-Library.Word"
begin

section \<open>Open-space planning: data model\<close>

text \<open>
  A shallow embedding of \<^verbatim>\<open>modules/planning/open_space_planning.cc\<close>.

  Conventions of the model.
  \<^item> A \<^verbatim>\<open>double\<close> of a trajectory point, of the clock or of a flag is a \<open>real\<close>: the
    trajectory arithmetic is idealised (finite values, no rounding).
  \<^item> A \<^verbatim>\<open>double\<close> field of the vehicle state is a value of the type \<open>double\<close> below,
    which keeps the infinities and NaN apart from the finite values, because
    \<^verbatim>\<open>IsVehicleStateValid\<close> tests \<^verbatim>\<open>std::isnan\<close>.
  \<^item> An optional protobuf field is an \<open>option\<close>; reading an unset field gives the
    protobuf default.
  \<^item> Undefined behaviour of the C++ (an index past the end of a vector) and a loop that
    never ends are values of the type \<open>fault\<close>: a function that can reach one returns
    \<open>fault + 'a\<close>.
  \<^item> The message types, \<^verbatim>\<open>Status\<close>, \<^verbatim>\<open>Frame\<close>, \<^verbatim>\<open>PublishableTrajectory\<close>, \<^verbatim>\<open>Box2d\<close>, the
    frame history and the base class of the planner are declared outside the two source
    files: they are modelled from the specification (its sections 3 and 6), with the
    fields that the two files read or write. What an external collaborator answers (the
    clock, the vehicle state provider, the stitcher, the planner strategy, the overlap
    test) is an input of the model.
  \<^item> The debug payload, the logging and the debug-only check
    \<^verbatim>\<open>DCHECK_GE(start_timestamp, vehicle_state.timestamp())\<close> are left out.
\<close>

datatype fault = OutOfRange | NonTermination

datatype double = Finite real | PosInf | NegInf | NaN

fun isnan :: "double \<Rightarrow> bool" where
  "isnan NaN = True"
| "isnan _ = False"

fun isfinite :: "double \<Rightarrow> bool" where
  "isfinite (Finite _) = True"
| "isfinite _ = False"

datatype ErrorCode = OK | PLANNING_ERROR | OTHER_ERROR nat

text \<open>Modelled from the spec: \<^verbatim>\<open>apollo::common::Status\<close> is declared outside the sources.
  A status is an error code and a human-readable message; \<^verbatim>\<open>ok()\<close> reads the code only,
  \<^verbatim>\<open>operator!=\<close> compares code and message.\<close>

datatype Status = Status ErrorCode string

definition Status_OK :: Status where
  "Status_OK = Status OK []"

fun ok :: "Status \<Rightarrow> bool" where
  "ok (Status c m) = (c = OK)"

fun error_message :: "Status \<Rightarrow> string" where
  "error_message (Status c m) = m"

datatype GearPosition = GEAR_DRIVE | GEAR_REVERSE

record PathPoint =
  pp_x :: real
  pp_y :: real
  pp_theta :: real
  pp_s :: real
  pp_kappa :: real

record TrajectoryPoint =
  path_point :: PathPoint
  tp_v :: real
  tp_a :: real
  relative_time :: real
  steer :: real

record VehicleState =
  vs_x :: double
  vs_y :: double
  vs_z :: double
  vs_heading :: double
  vs_kappa :: double
  vs_linear_velocity :: double
  vs_linear_acceleration :: double
  vs_timestamp :: real

record Header =
  timestamp_sec :: "real option"
  sequence_num :: "32 word option"
  lidar_timestamp :: "64 word option"
  camera_timestamp :: "64 word option"
  radar_timestamp :: "64 word option"
  status :: "Status option"

definition default_Header :: Header where
  "default_Header = \<lparr>timestamp_sec = None, sequence_num = None, lidar_timestamp = None,
     camera_timestamp = None, radar_timestamp = None, status = None\<rparr>"

record EStop =
  is_estop :: bool
  reason :: string

record ADCTrajectory =
  header :: "Header option"
  routing_header :: "Header option"
  trajectory_point :: "TrajectoryPoint list"
  gear :: "GearPosition option"
  estop :: "EStop option"
  not_ready_reason :: "string option"
  is_replan :: "bool option"
  init_frame_time_ms :: "real option"
  total_time_ms :: "real option"

definition default_ADCTrajectory :: ADCTrajectory where
  "default_ADCTrajectory = \<lparr>header = None, routing_header = None, trajectory_point = [],
     gear = None, estop = None, not_ready_reason = None, is_replan = None,
     init_frame_time_ms = None, total_time_ms = None\<rparr>"

text \<open>\<^verbatim>\<open>mutable_header()\<close>: the header of the message, created with defaults when absent.\<close>

definition mutable_header :: "ADCTrajectory \<Rightarrow> Header" where
  "mutable_header t = (case header t of None \<Rightarrow> default_Header | Some h \<Rightarrow> h)"

section \<open>Gear partitioner: \<^verbatim>\<open>OpenSpacePlanning::TrajectoryPartition\<close>\<close>

definition initial_gear_check_horizon :: nat where
  "initial_gear_check_horizon = 3"

definition kepsilon :: real where
  "kepsilon = 1 / 100"

text \<open>The \<^verbatim>\<open>while (i != initial_gear_check_horizon)\<close> loop. The source reads
  \<^verbatim>\<open>stitched_trajectory_to_end[j]\<close> with no bound on \<open>j\<close>; a read past the end is
  \<open>OutOfRange\<close>. The loop returns \<open>(direction_flag, init_direction)\<close>.\<close>

function initial_gear_scan ::
  "TrajectoryPoint list \<Rightarrow> nat \<Rightarrow> nat \<Rightarrow> int \<Rightarrow> int \<Rightarrow> fault + (int \<times> int)" where
  "initial_gear_scan pts i j direction_flag init_direction =
     (if i = initial_gear_check_horizon then Inr (direction_flag, init_direction)
      else if length pts \<le> j then Inl OutOfRange
      else if tp_v (pts ! j) > kepsilon then
        initial_gear_scan pts (i + 1) (j + 1) (direction_flag + 1)
          (if init_direction = 0 then init_direction + 1 else init_direction)
      else if tp_v (pts ! j) < - kepsilon then
        initial_gear_scan pts (i + 1) (j + 1) (direction_flag - 1)
          (if init_direction = 0 then init_direction - 1 else init_direction)
      else initial_gear_scan pts i (j + 1) direction_flag init_direction)"
  by pat_completeness auto
termination
  by (relation "measure (\<lambda>(pts, i, j, d, n). length pts - j)") auto

declare initial_gear_scan.simps [simp del]

text \<open>The choice of the first gear from the two counters.\<close>

definition initial_gear :: "int \<Rightarrow> int \<Rightarrow> Status + GearPosition" where
  "initial_gear direction_flag init_direction =
     (if direction_flag > 1 then Inr GEAR_DRIVE
      else if direction_flag < - 1 then Inr GEAR_REVERSE
      else if init_direction > 0 then Inr GEAR_DRIVE
      else if init_direction < 0 then Inr GEAR_REVERSE
      else Inl (Status PLANNING_ERROR
        ''Invalid trajectory start! initial speeds too small to decide gear''))"

text \<open>The state of the partition loop: the segments built so far (the last one is
  \<^verbatim>\<open>current_trajectory\<close>), their gears, and the running arc length.\<close>

record partition_state =
  trajectory_partition :: "TrajectoryPoint list list"
  gear_positions :: "GearPosition list"
  distance_s :: real

text \<open>A gear change: \<^verbatim>\<open>add_trajectory()\<close>, the push of the new gear, and
  \<^verbatim>\<open>distance_s = 0.0\<close>.\<close>

definition add_trajectory :: "GearPosition \<Rightarrow> partition_state \<Rightarrow> partition_state" where
  "add_trajectory g st =
     st\<lparr>trajectory_partition := trajectory_partition st @ [Nil],
        gear_positions := gear_positions st @ [g],
        distance_s := 0\<rparr>"

definition add_trajectory_point :: "TrajectoryPoint \<Rightarrow> partition_state \<Rightarrow> partition_state" where
  "add_trajectory_point p st =
     st\<lparr>trajectory_partition :=
          butlast (trajectory_partition st) @ [last (trajectory_partition st) @ [p]]\<rparr>"

definition point_distance :: "TrajectoryPoint \<Rightarrow> TrajectoryPoint \<Rightarrow> real" where
  "point_distance p q =
     sqrt ((pp_x (path_point p) - pp_x (path_point q)) * (pp_x (path_point p) - pp_x (path_point q))
         + (pp_y (path_point p) - pp_y (path_point q)) * (pp_y (path_point p) - pp_y (path_point q)))"

definition steer_to_kappa :: "real \<Rightarrow> real \<Rightarrow> real" where
  "steer_to_kappa st gear_drive = tanh (st * 470 * pi / 180 / 16) / (285 / 100) * gear_drive"

text \<open>One iteration of \<^verbatim>\<open>for (size_t i = 0; i < horizon; i++)\<close>.\<close>

definition partition_step :: "TrajectoryPoint list \<Rightarrow> nat \<Rightarrow> partition_state \<Rightarrow> partition_state" where
  "partition_step pts i st =
     (let st1 = (if tp_v (pts ! i) < - kepsilon \<and> last (gear_positions st) = GEAR_DRIVE
                 then add_trajectory GEAR_REVERSE st else st);
          st2 = (if tp_v (pts ! i) > kepsilon \<and> last (gear_positions st1) = GEAR_REVERSE
                 then add_trajectory GEAR_DRIVE st1 else st1);
          d = (if i > 0 then distance_s st2 + point_distance (pts ! i) (pts ! (i - 1))
               else distance_s st2);
          gear_drive = (if last (gear_positions st2) = GEAR_REVERSE then - 1 else 1);
          point = \<lparr>path_point = \<lparr>pp_x = pp_x (path_point (pts ! i)),
                                  pp_y = pp_y (path_point (pts ! i)),
                                  pp_theta = pp_theta (path_point (pts ! i)),
                                  pp_s = d,
                                  pp_kappa = steer_to_kappa (steer (pts ! i)) gear_drive\<rparr>,
                   tp_v = tp_v (pts ! i) * gear_drive,
                   tp_a = tp_a (pts ! i) * gear_drive,
                   relative_time = relative_time (pts ! i),
                   steer = 0\<rparr>
      in add_trajectory_point point (st2\<lparr>distance_s := d\<rparr>))"

definition partition_init :: "GearPosition \<Rightarrow> partition_state" where
  "partition_init g = \<lparr>trajectory_partition = [Nil], gear_positions = [g], distance_s = 0\<rparr>"

definition partition_points :: "TrajectoryPoint list \<Rightarrow> GearPosition \<Rightarrow> partition_state" where
  "partition_points pts g = fold (partition_step pts) [0..<length pts] (partition_init g)"

text \<open>The first half of \<^verbatim>\<open>TrajectoryPartition\<close>: length check, first gear, segments.\<close>

definition partition_segments :: "TrajectoryPoint list \<Rightarrow> fault + (Status + partition_state)" where
  "partition_segments pts =
     (if length pts < initial_gear_check_horizon
      then Inr (Inl (Status PLANNING_ERROR ''Invalid trajectory length!''))
      else case initial_gear_scan pts 0 0 0 0 of
        Inl f \<Rightarrow> Inl f
      | Inr (direction_flag, init_direction) \<Rightarrow>
          (case initial_gear direction_flag init_direction of
             Inl e \<Rightarrow> Inr (Inl e)
           | Inr g \<Rightarrow> Inr (Inr (partition_points pts g))))"

text \<open>\<^verbatim>\<open>std::numeric_limits<double>::max()\<close>.\<close>

definition DBL_MAX :: real where
  "DBL_MAX = (2 ^ 53 - 1) * 2 ^ 971"

text \<open>The squared planar distance of a point to the vehicle, as the comparison
  \<^verbatim>\<open>distance < min_distance\<close> sees it: with an infinite or NaN vehicle coordinate the
  distance is infinite or NaN and the comparison is false (\<open>None\<close>).\<close>

definition sq_distance :: "PathPoint \<Rightarrow> VehicleState \<Rightarrow> real option" where
  "sq_distance p vs =
     (case (vs_x vs, vs_y vs) of
        (Finite vx, Finite vy) \<Rightarrow>
          Some ((pp_x p - vx) * (pp_x p - vx) + (pp_y p - vy) * (pp_y p - vy))
      | _ \<Rightarrow> None)"

record closest_state =
  min_distance :: real
  current_trajectory_index :: nat
  closest_trajectory_point_index :: nat

definition closest_init :: closest_state where
  "closest_init = \<lparr>min_distance = DBL_MAX, current_trajectory_index = 0,
     closest_trajectory_point_index = 0\<rparr>"

definition closest_point_step ::
  "VehicleState \<Rightarrow> TrajectoryPoint list \<Rightarrow> nat \<Rightarrow> nat \<Rightarrow> closest_state \<Rightarrow> closest_state" where
  "closest_point_step vs trajectory i j st =
     (case sq_distance (path_point (trajectory ! j)) vs of
        None \<Rightarrow> st
      | Some distance \<Rightarrow>
          if distance < min_distance st
          then \<lparr>min_distance = distance, current_trajectory_index = i,
                closest_trajectory_point_index = j\<rparr>
          else st)"

definition closest_trajectory_step ::
  "VehicleState \<Rightarrow> TrajectoryPoint list list \<Rightarrow> nat \<Rightarrow> closest_state \<Rightarrow> closest_state" where
  "closest_trajectory_step vs trajs i st =
     fold (closest_point_step vs (trajs ! i) i) [0..<length (trajs ! i)] st"

definition choose_closest :: "VehicleState \<Rightarrow> partition_state \<Rightarrow> closest_state" where
  "choose_closest vs ps =
     fold (closest_trajectory_step vs (trajectory_partition ps))
       [0..<length (gear_positions ps)] closest_init"

definition shift_relative_time :: "real \<Rightarrow> TrajectoryPoint \<Rightarrow> TrajectoryPoint" where
  "shift_relative_time time_shift p = p\<lparr>relative_time := relative_time p - time_shift\<rparr>"

text \<open>The second half: the closest segment is copied to the output, its times are
  shifted, its gear is set. The reads \<^verbatim>\<open>trajectory(i)\<close> and \<^verbatim>\<open>trajectory_point(j)\<close> are
  guarded in the model.\<close>

definition emit_closest ::
  "VehicleState \<Rightarrow> partition_state \<Rightarrow> ADCTrajectory \<Rightarrow> fault + ADCTrajectory" where
  "emit_closest vs ps trajectory_pb =
     (let cs = choose_closest vs ps;
          ci = current_trajectory_index cs;
          cj = closest_trajectory_point_index cs
      in if length (trajectory_partition ps) \<le> ci \<or> length (gear_positions ps) \<le> ci
         then Inl OutOfRange
         else if length (trajectory_partition ps ! ci) \<le> cj then Inl OutOfRange
         else Inr (trajectory_pb
           \<lparr>trajectory_point :=
              map (shift_relative_time (relative_time (trajectory_partition ps ! ci ! cj)))
                (trajectory_partition ps ! ci),
            gear := Some (gear_positions ps ! ci)\<rparr>))"

definition TrajectoryPartition ::
  "TrajectoryPoint list \<Rightarrow> VehicleState \<Rightarrow> ADCTrajectory \<Rightarrow> fault + (Status \<times> ADCTrajectory)" where
  "TrajectoryPartition stitched_trajectory_to_end vs trajectory_pb =
     (case partition_segments stitched_trajectory_to_end of
        Inl f \<Rightarrow> Inl f
      | Inr (Inl e) \<Rightarrow> Inr (e, trajectory_pb)
      | Inr (Inr ps) \<Rightarrow>
          (case emit_closest vs ps trajectory_pb of
             Inl f \<Rightarrow> Inl f
           | Inr out \<Rightarrow> Inr (Status_OK, out)))"

section \<open>Collision checker: \<^verbatim>\<open>BuildPredictedEnvironment\<close>, \<^verbatim>\<open>IsCollisionFreeTrajectory\<close>\<close>

text \<open>Modelled from the spec: the class \<^verbatim>\<open>Box2d\<close> (\<^verbatim>\<open>modules/common/math\<close>) is not among
  the sources. An oriented bounding box is its centre, heading, length and width;
  \<^verbatim>\<open>Shift\<close> translates the centre. The overlap test \<^verbatim>\<open>HasOverlap\<close> is a parameter of the
  checker.\<close>

record Box2d =
  center_x :: real
  center_y :: real
  box_heading :: real
  box_length :: real
  box_width :: real

definition Shift :: "Box2d \<Rightarrow> real \<times> real \<Rightarrow> Box2d" where
  "Shift b vec = b\<lparr>center_x := center_x b + fst vec, center_y := center_y b + snd vec\<rparr>"

text \<open>The part of the vehicle configuration that the checker reads.\<close>

record VehicleParam =
  vp_length :: real
  vp_width :: real
  back_edge_to_center :: real

text \<open>An obstacle, as far as the builder uses it: its bounding box at a relative time
  (\<^verbatim>\<open>GetBoundingBox(GetPointAtTime(t))\<close>).\<close>

type_synonym Obstacle = "real \<Rightarrow> Box2d"

text \<open>The loop of \<^verbatim>\<open>BuildPredictedEnvironment\<close>. It does not end when the resolution is
  not positive and the horizon is: not returning is \<open>None\<close>.\<close>

partial_function (option) BuildPredictedEnvironment_loop ::
  "real \<Rightarrow> real \<Rightarrow> Obstacle list \<Rightarrow> real \<Rightarrow> Box2d list list \<Rightarrow> Box2d list list option" where
  "BuildPredictedEnvironment_loop time_length time_resolution obstacles t env =
     (if t < time_length
      then BuildPredictedEnvironment_loop time_length time_resolution obstacles
             (t + time_resolution) (env @ [map (\<lambda>obstacle. obstacle t) obstacles])
      else Some env)"

definition BuildPredictedEnvironment :: "real \<Rightarrow> real \<Rightarrow> Obstacle list \<Rightarrow> Box2d list list option" where
  "BuildPredictedEnvironment time_length time_resolution obstacles =
     BuildPredictedEnvironment_loop time_length time_resolution obstacles 0 []"

text \<open>The ego box at a trajectory point: built at the point, shifted along the heading
  from the rear axle to the geometric centre.\<close>

definition ego_box :: "VehicleParam \<Rightarrow> TrajectoryPoint \<Rightarrow> Box2d" where
  "ego_box vp p =
     (let ego_theta = pp_theta (path_point p);
          box = \<lparr>center_x = pp_x (path_point p), center_y = pp_y (path_point p),
                 box_heading = ego_theta, box_length = vp_length vp, box_width = vp_width vp\<rparr>;
          shift_distance = vp_length vp / 2 - back_edge_to_center vp
      in Shift box (shift_distance * cos ego_theta, shift_distance * sin ego_theta))"

text \<open>The loop of \<^verbatim>\<open>IsCollisionFreeTrajectory\<close> from index \<open>i\<close>. The source guards the read
  \<^verbatim>\<open>predicted_bounding_rectangles_[i]\<close> with \<^verbatim>\<open>size() != 0\<close> only; a read past the end
  is \<open>OutOfRange\<close>.\<close>

function collision_free_from ::
  "(Box2d \<Rightarrow> Box2d \<Rightarrow> bool) \<Rightarrow> VehicleParam \<Rightarrow> Box2d list list \<Rightarrow> TrajectoryPoint list \<Rightarrow> nat
     \<Rightarrow> fault + bool" where
  "collision_free_from HasOverlap vp predicted_bounding_rectangles pts i =
     (if i < length pts then
        (if length predicted_bounding_rectangles \<noteq> 0 then
           (if length predicted_bounding_rectangles \<le> i then Inl OutOfRange
            else if list_ex (HasOverlap (ego_box vp (pts ! i))) (predicted_bounding_rectangles ! i)
              then Inr False
            else collision_free_from HasOverlap vp predicted_bounding_rectangles pts (i + 1))
         else collision_free_from HasOverlap vp predicted_bounding_rectangles pts (i + 1))
      else Inr True)"
  by pat_completeness auto
termination
  by (relation "measure (\<lambda>(h, vp, env, pts, i). length pts - i)") auto

declare collision_free_from.simps [simp del]

definition IsCollisionFreeTrajectory ::
  "(Box2d \<Rightarrow> Box2d \<Rightarrow> bool) \<Rightarrow> VehicleParam \<Rightarrow> Box2d list list \<Rightarrow> ADCTrajectory \<Rightarrow> fault + bool" where
  "IsCollisionFreeTrajectory HasOverlap vp predicted_bounding_rectangles trajectory_pb =
     collision_free_from HasOverlap vp predicted_bounding_rectangles (trajectory_point trajectory_pb) 0"

section \<open>The cycle: \<^verbatim>\<open>FillPlanningPb\<close>, \<^verbatim>\<open>Plan\<close>, \<^verbatim>\<open>RunOnce\<close>\<close>

record RoutingResponse =
  rr_header :: "Header option"
  rr_payload :: nat

record LocalView =
  prediction_obstacles_header :: "Header option"
  routing :: RoutingResponse

text \<open>Modelled from the spec: \<^verbatim>\<open>PublishableTrajectory\<close> and \<^verbatim>\<open>Frame\<close> are declared outside the
  sources. A publishable trajectory is the header time and the points of an
  \<^verbatim>\<open>ADCTrajectory\<close>; a frame carries its sequence number, its own trajectory record and the
  obstacles.\<close>

record PublishableTrajectory =
  header_time :: real
  trajectory_points :: "TrajectoryPoint list"

record Frame =
  SequenceNum :: "32 word"
  frame_trajectory :: ADCTrajectory
  frame_obstacles :: "Obstacle list"

text \<open>The members of the planner that live across cycles. Modelled from the spec: the
  counter \<open>seq_num\<close> is declared in the base class, which is not among the sources; it is a
  natural number here, and \<^verbatim>\<open>const uint32_t frame_num = seq_num_++\<close> truncates it to 32
  bits. The frame history is not among the sources either: \<open>frame_history\<close> is the
  sequence of calls \<^verbatim>\<open>FrameHistory::Instance()->Add(n, frame)\<close> (its bounded retention is
  the history's own business).\<close>

record PlanningState =
  seq_num :: nat
  last_publishable_trajectory :: "PublishableTrajectory option"
  last_routing :: RoutingResponse
  predicted_bounding_rectangles :: "Box2d list list"
  frame_history :: "(32 word \<times> Frame) list"

record Flags =
  estimate_current_vehicle_state :: bool
  publish_estop :: bool
  use_planning_fallback :: bool
  enable_stitch_last_trajectory :: bool
  open_space_planning_period :: real
  trajectory_time_length :: real
  trajectory_time_resolution :: real

text \<open>What the external collaborators answer during one cycle: the successive readings
  of the clock, the vehicle state provider, the stitcher, the frame initialisation, the
  planner, the fallback trajectory of the base class, the overlap test and the vehicle
  configuration.\<close>

record Collaborators =
  clock :: "nat \<Rightarrow> real"
  Update :: Status
  vehicle_state :: VehicleState
  EstimateFuturePosition :: "real \<Rightarrow> double \<times> double"
  ComputeStitchingTrajectory ::
    "VehicleState \<Rightarrow> real \<Rightarrow> real \<Rightarrow> PublishableTrajectory option \<Rightarrow> TrajectoryPoint list"
  InitForOpenSpace :: "Frame \<Rightarrow> Status \<times> Frame"
  planner_Plan :: "TrajectoryPoint \<Rightarrow> Frame \<Rightarrow> Status \<times> Frame"
  fallback_points :: "PublishableTrajectory option \<Rightarrow> ADCTrajectory \<Rightarrow> TrajectoryPoint list"
  HasOverlap :: "Box2d \<Rightarrow> Box2d \<Rightarrow> bool"
  vehicle_param :: VehicleParam
  ToString :: "Status \<Rightarrow> string"

definition IsVehicleStateValid :: "VehicleState \<Rightarrow> bool" where
  "IsVehicleStateValid vs =
     (if isnan (vs_x vs) \<or> isnan (vs_y vs) \<or> isnan (vs_z vs) \<or> isnan (vs_heading vs)
         \<or> isnan (vs_kappa vs) \<or> isnan (vs_linear_velocity vs)
         \<or> isnan (vs_linear_acceleration vs)
      then False else True)"

definition IsDifferentRouting :: "RoutingResponse \<Rightarrow> RoutingResponse \<Rightarrow> bool" where
  "IsDifferentRouting first second =
     (case (rr_header first, rr_header second) of
        (Some h1, Some h2) \<Rightarrow>
          if (case sequence_num h1 of None \<Rightarrow> 0 | Some n \<Rightarrow> n)
               \<noteq> (case sequence_num h2 of None \<Rightarrow> 0 | Some n \<Rightarrow> n) then True
          else if (case timestamp_sec h1 of None \<Rightarrow> 0 | Some t \<Rightarrow> t)
               \<noteq> (case timestamp_sec h2 of None \<Rightarrow> 0 | Some t \<Rightarrow> t) then True
          else False
      | _ \<Rightarrow> True)"

text \<open>\<^verbatim>\<open>status.Save(trajectory_pb->mutable_header()->mutable_status())\<close>.\<close>

definition save_status :: "Status \<Rightarrow> ADCTrajectory \<Rightarrow> ADCTrajectory" where
  "save_status st t = t\<lparr>header := Some ((mutable_header t)\<lparr>status := Some st\<rparr>)\<rparr>"

text \<open>The sensor timestamps as the getters of a possibly absent header read them.\<close>

definition get_lidar_timestamp :: "Header option \<Rightarrow> 64 word" where
  "get_lidar_timestamp h =
     (case h of None \<Rightarrow> 0 | Some h' \<Rightarrow> (case lidar_timestamp h' of None \<Rightarrow> 0 | Some v \<Rightarrow> v))"

definition get_camera_timestamp :: "Header option \<Rightarrow> 64 word" where
  "get_camera_timestamp h =
     (case h of None \<Rightarrow> 0 | Some h' \<Rightarrow> (case camera_timestamp h' of None \<Rightarrow> 0 | Some v \<Rightarrow> v))"

definition get_radar_timestamp :: "Header option \<Rightarrow> 64 word" where
  "get_radar_timestamp h =
     (case h of None \<Rightarrow> 0 | Some h' \<Rightarrow> (case radar_timestamp h' of None \<Rightarrow> 0 | Some v \<Rightarrow> v))"

text \<open>The header part of \<^verbatim>\<open>FillPlanningPb\<close>: the timestamp, the sensor timestamps (under
  \<^verbatim>\<open>!has_header()\<close>, as the source has it) and the routing header.\<close>

definition fill_header :: "LocalView \<Rightarrow> real \<Rightarrow> ADCTrajectory \<Rightarrow> ADCTrajectory" where
  "fill_header lv timestamp t =
     (let h = (mutable_header t)\<lparr>timestamp_sec := Some timestamp\<rparr>;
          h' = (if \<not> (prediction_obstacles_header lv \<noteq> None)
                then h\<lparr>lidar_timestamp := Some (get_lidar_timestamp (prediction_obstacles_header lv)),
                       camera_timestamp := Some (get_camera_timestamp (prediction_obstacles_header lv)),
                       radar_timestamp := Some (get_radar_timestamp (prediction_obstacles_header lv))\<rparr>
                else h)
      in t\<lparr>header := Some h',
           routing_header := Some (case rr_header (routing lv) of None \<Rightarrow> default_Header | Some r \<Rightarrow> r)\<rparr>)"

text \<open>Modelled from the spec: \<^verbatim>\<open>SetFallbackTrajectory\<close> belongs to the base class, which is
  not among the sources. It substitutes a safe fallback trajectory: it adds points, which
  it computes from the last published trajectory and the record.\<close>

definition SetFallbackTrajectory ::
  "Collaborators \<Rightarrow> PublishableTrajectory option \<Rightarrow> ADCTrajectory \<Rightarrow> ADCTrajectory" where
  "SetFallbackTrajectory co last_publishable t =
     t\<lparr>trajectory_point := trajectory_point t @ fallback_points co last_publishable t\<rparr>"

text \<open>\<^verbatim>\<open>FillPlanningPb\<close>; \<open>now\<close> is the reading of the clock that the call makes.\<close>

definition FillPlanningPb ::
  "Flags \<Rightarrow> Collaborators \<Rightarrow> LocalView \<Rightarrow> PublishableTrajectory option \<Rightarrow> real \<Rightarrow> real
     \<Rightarrow> ADCTrajectory \<Rightarrow> ADCTrajectory" where
  "FillPlanningPb fl co lv last_publishable timestamp now trajectory_pb =
     (let t1 = fill_header lv timestamp trajectory_pb;
          t2 = (if use_planning_fallback fl \<and> length (trajectory_point t1) = 0
                then SetFallbackTrajectory co last_publishable t1 else t1);
          dt = timestamp - now
      in t2\<lparr>trajectory_point := map (shift_relative_time dt) (trajectory_point t2)\<rparr>)"

text \<open>\<^verbatim>\<open>InitFrame\<close>: a new frame with the sequence number, then \<^verbatim>\<open>InitForOpenSpace\<close>.
  The sequence number of a frame is a constant member: a collaborator that works on the
  frame cannot change it.\<close>

definition InitFrame :: "Collaborators \<Rightarrow> 32 word \<Rightarrow> Status \<times> Frame" where
  "InitFrame co sequence_num' =
     (let frame = \<lparr>SequenceNum = sequence_num', frame_trajectory = default_ADCTrajectory,
                   frame_obstacles = []\<rparr>;
          (st, frame') = InitForOpenSpace co frame;
          frame'' = frame'\<lparr>SequenceNum := sequence_num'\<rparr>
      in if \<not> ok st then (st, frame'') else (Status_OK, frame''))"

text \<open>The value that \<^verbatim>\<open>Plan\<close> stores in \<^verbatim>\<open>last_publishable_trajectory_\<close>: the trajectory of
  the frame, stamped, its times moved by the time of the stitching point, and (under the
  flag) the stitching points but the last in front.\<close>

definition stitched_frame_trajectory :: "real \<Rightarrow> TrajectoryPoint list \<Rightarrow> ADCTrajectory \<Rightarrow> ADCTrajectory" where
  "stitched_frame_trajectory current_time_stamp stitching_trajectory t =
     t\<lparr>header := Some ((mutable_header t)\<lparr>timestamp_sec := Some current_time_stamp\<rparr>),
       trajectory_point :=
         map (\<lambda>p. p\<lparr>relative_time := relative_time p + relative_time (last stitching_trajectory)\<rparr>)
           (trajectory_point t)\<rparr>"

definition new_publishable_trajectory ::
  "Flags \<Rightarrow> real \<Rightarrow> TrajectoryPoint list \<Rightarrow> ADCTrajectory \<Rightarrow> PublishableTrajectory" where
  "new_publishable_trajectory fl current_time_stamp stitching_trajectory t =
     (let t' = stitched_frame_trajectory current_time_stamp stitching_trajectory t;
          p = \<lparr>header_time = (case timestamp_sec (mutable_header t') of None \<Rightarrow> 0 | Some ts \<Rightarrow> ts),
               trajectory_points = trajectory_point t'\<rparr>
      in if enable_stitch_last_trajectory fl
         then p\<lparr>trajectory_points := butlast stitching_trajectory @ trajectory_points p\<rparr>
         else p)"

text \<open>\<^verbatim>\<open>OpenSpacePlanning::Plan\<close>. It returns the status, the members it has changed, the
  frame and the output record. The partition reads the vehicle state of the provider
  (\<^verbatim>\<open>VehicleStateProvider::Instance()->vehicle_state()\<close>), not the copy that \<^verbatim>\<open>RunOnce\<close> has
  extrapolated. The debug payload is left out.\<close>

definition Plan ::
  "Flags \<Rightarrow> Collaborators \<Rightarrow> real \<Rightarrow> TrajectoryPoint list \<Rightarrow> PlanningState \<Rightarrow> Frame
     \<Rightarrow> ADCTrajectory \<Rightarrow> fault + (Status \<times> PlanningState \<times> Frame \<times> ADCTrajectory)" where
  "Plan fl co current_time_stamp stitching_trajectory s frame trajectory_pb =
     (let (st, frame0) = planner_Plan co (last stitching_trajectory) frame;
          frame1 = frame0\<lparr>SequenceNum := SequenceNum frame\<rparr>
      in if st \<noteq> Status_OK then Inr (st, s, frame1, trajectory_pb)
         else
           let frame2 = frame1\<lparr>frame_trajectory :=
                  stitched_frame_trajectory current_time_stamp stitching_trajectory
                    (frame_trajectory frame1)\<rparr>;
               lp = new_publishable_trajectory fl current_time_stamp stitching_trajectory
                      (frame_trajectory frame1);
               s1 = s\<lparr>last_publishable_trajectory := Some lp\<rparr>
           in case TrajectoryPartition (trajectory_points lp) (vehicle_state co) trajectory_pb of
                Inl f \<Rightarrow> Inl f
              | Inr (trajectory_partition_status, pb1) \<Rightarrow>
                  if trajectory_partition_status \<noteq> Status_OK
                  then Inr (trajectory_partition_status, s1, frame2, pb1)
                  else
                    (case BuildPredictedEnvironment (trajectory_time_length fl)
                            (trajectory_time_resolution fl) (frame_obstacles frame2) of
                       None \<Rightarrow> Inl NonTermination
                     | Some env \<Rightarrow>
                         (case IsCollisionFreeTrajectory (HasOverlap co) (vehicle_param co) env pb1 of
                            Inl f \<Rightarrow> Inl f
                          | Inr free \<Rightarrow>
                              if \<not> free
                              then Inr (Status PLANNING_ERROR ''Collision Check failed'',
                                        s1\<lparr>predicted_bounding_rectangles := env\<rparr>, frame2, pb1)
                              else Inr (Status_OK,
                                        s1\<lparr>predicted_bounding_rectangles := env\<rparr>, frame2, pb1))))"

text \<open>The vehicle state that \<^verbatim>\<open>RunOnce\<close> validates: the provider's, with the position
  extrapolated when the flag is set and the state is less than 20 ms old.\<close>

definition cycle_vehicle_state :: "Flags \<Rightarrow> Collaborators \<Rightarrow> VehicleState" where
  "cycle_vehicle_state fl co =
     (let start_timestamp = clock co 0; vs = vehicle_state co
      in if estimate_current_vehicle_state fl \<and> start_timestamp - vs_timestamp vs < 20 / 1000
         then (let future_xy = EstimateFuturePosition co (start_timestamp - vs_timestamp vs)
               in vs\<lparr>vs_x := fst future_xy, vs_y := snd future_xy, vs_timestamp := start_timestamp\<rparr>)
         else vs)"

definition set_estop :: "Status \<Rightarrow> ADCTrajectory \<Rightarrow> ADCTrajectory" where
  "set_estop st t = t\<lparr>estop := Some \<lparr>is_estop = True, reason = error_message st\<rparr>\<rparr>"

text \<open>The end of a cycle that has a frame: the record is copied into the frame and the
  frame is handed to the history under its sequence number.\<close>

definition archive :: "Frame \<Rightarrow> ADCTrajectory \<Rightarrow> PlanningState \<Rightarrow> PlanningState" where
  "archive frame trajectory_pb s =
     s\<lparr>frame_history := frame_history s
          @ [(SequenceNum frame, frame\<lparr>frame_trajectory := trajectory_pb\<rparr>)]\<rparr>"

text \<open>The branch of \<^verbatim>\<open>RunOnce\<close> taken when \<^verbatim>\<open>InitFrame\<close> fails.\<close>

definition init_frame_failure ::
  "Flags \<Rightarrow> Collaborators \<Rightarrow> LocalView \<Rightarrow> PlanningState \<Rightarrow> Status \<Rightarrow> ADCTrajectory
     \<Rightarrow> ADCTrajectory" where
  "init_frame_failure fl co lv s st trajectory_pb =
     (let start_timestamp = clock co 0;
          pb = (if publish_estop fl
                then FillPlanningPb fl co lv (last_publishable_trajectory s) start_timestamp
                       (clock co 2) (save_status st (set_estop st default_ADCTrajectory))
                else FillPlanningPb fl co lv (last_publishable_trajectory s) start_timestamp
                       (clock co 2)
                       (save_status st (trajectory_pb\<lparr>not_ready_reason := Some (ToString co st)\<rparr>)))
      in FillPlanningPb fl co lv (last_publishable_trajectory s) start_timestamp (clock co 3) pb)"

text \<open>The routing, the stitching trajectory and the frame of a cycle whose vehicle state
  is valid.\<close>

definition update_routing :: "LocalView \<Rightarrow> PlanningState \<Rightarrow> PlanningState" where
  "update_routing lv s =
     (if IsDifferentRouting (last_routing s) (routing lv) then s\<lparr>last_routing := routing lv\<rparr> else s)"

definition cycle_stitching_trajectory ::
  "Flags \<Rightarrow> Collaborators \<Rightarrow> PlanningState \<Rightarrow> TrajectoryPoint list" where
  "cycle_stitching_trajectory fl co s =
     ComputeStitchingTrajectory co (cycle_vehicle_state fl co) (clock co 0)
       (open_space_planning_period fl) (last_publishable_trajectory s)"

text \<open>The end of a cycle after \<^verbatim>\<open>Plan\<close> has returned.\<close>

definition after_plan ::
  "Flags \<Rightarrow> Collaborators \<Rightarrow> LocalView \<Rightarrow> TrajectoryPoint list
     \<Rightarrow> Status \<times> PlanningState \<times> Frame \<times> ADCTrajectory \<Rightarrow> PlanningState \<times> ADCTrajectory" where
  "after_plan fl co lv stitching_trajectory r =
     (case r of (st, s, frame, pb) \<Rightarrow>
        let start_timestamp = clock co 0;
            pb4 = pb\<lparr>total_time_ms := Some ((clock co 2 - start_timestamp) * 1000)\<rparr>;
            pb5 = (if \<not> ok st
                   then (let pb' = save_status st pb4
                         in if publish_estop fl then set_estop st pb' else pb')
                   else pb4);
            pb6 = pb5\<lparr>is_replan := Some (length stitching_trajectory = 1)\<rparr>;
            pb7 = FillPlanningPb fl co lv (last_publishable_trajectory s) start_timestamp
                    (clock co 3) pb6
        in (archive frame pb7 s, pb7))"

text \<open>\<^verbatim>\<open>OpenSpacePlanning::RunOnce\<close>: the members before the cycle and the output record
  go in, the members after the cycle and the record come out. The stitcher must return
  at least one point, since the source reads \<^verbatim>\<open>stitching_trajectory.back()\<close>.\<close>

definition RunOnce ::
  "Flags \<Rightarrow> Collaborators \<Rightarrow> LocalView \<Rightarrow> PlanningState \<Rightarrow> ADCTrajectory
     \<Rightarrow> fault + (PlanningState \<times> ADCTrajectory)" where
  "RunOnce fl co lv s trajectory_pb =
     (let start_timestamp = clock co 0;
          vs = cycle_vehicle_state fl co
      in if \<not> IsVehicleStateValid vs
         then Inr (s, FillPlanningPb fl co lv (last_publishable_trajectory s) start_timestamp
                        (clock co 1) (save_status (Update co) trajectory_pb))
         else
           let s1 = update_routing lv s;
               stitching_trajectory = cycle_stitching_trajectory fl co s1
           in if stitching_trajectory = [] then Inl OutOfRange
              else
                let frame_num = (word_of_nat (seq_num s1) :: 32 word);
                    s2 = s1\<lparr>seq_num := seq_num s1 + 1\<rparr>;
                    (st, frame) = InitFrame co frame_num;
                    pb1 = trajectory_pb\<lparr>init_frame_time_ms := Some (clock co 1 - start_timestamp)\<rparr>
                in if \<not> ok st
                   then
                     (let pb2 = init_frame_failure fl co lv s2 st pb1
                      in Inr (archive frame pb2 s2, pb2))
                   else
                     (case Plan fl co start_timestamp stitching_trajectory s2 frame pb1 of
                        Inl f \<Rightarrow> Inl f
                      | Inr r \<Rightarrow> Inr (after_plan fl co lv stitching_trajectory r)))"

text \<open>The three sensor timestamps of a header.\<close>

definition sensor_timestamps :: "Header \<Rightarrow> 64 word option \<times> 64 word option \<times> 64 word option" where
  "sensor_timestamps h = (lidar_timestamp h, camera_timestamp h, radar_timestamp h)"

text \<open>The points that \<^verbatim>\<open>FillPlanningPb\<close> corrects: those of the record, or the fallback
  points when the flag is set and the record has none.\<close>

definition points_to_publish ::
  "Flags \<Rightarrow> Collaborators \<Rightarrow> LocalView \<Rightarrow> PublishableTrajectory option \<Rightarrow> real
     \<Rightarrow> ADCTrajectory \<Rightarrow> TrajectoryPoint list" where
  "points_to_publish fl co lv last_publishable timestamp t =
     (if use_planning_fallback fl \<and> trajectory_point t = []
      then fallback_points co last_publishable (fill_header lv timestamp t)
      else trajectory_point t)"

section \<open>Auxiliary notions and sample inputs\<close>

text \<open>A velocity that makes the partition loop leave gear \<open>g\<close>, and the factor
  \<^verbatim>\<open>gear_drive\<close> of a gear.\<close>

definition crossing :: "GearPosition \<Rightarrow> TrajectoryPoint \<Rightarrow> bool" where
  "crossing g p = (case g of GEAR_DRIVE \<Rightarrow> tp_v p < - kepsilon | GEAR_REVERSE \<Rightarrow> tp_v p > kepsilon)"

definition gear_sign :: "GearPosition \<Rightarrow> real" where
  "gear_sign g = (if g = GEAR_REVERSE then - 1 else 1)"

definition sample_point :: "real \<Rightarrow> real \<Rightarrow> real \<Rightarrow> real \<Rightarrow> TrajectoryPoint" where
  "sample_point x y v t =
     \<lparr>path_point = \<lparr>pp_x = x, pp_y = y, pp_theta = 0, pp_s = 0, pp_kappa = 0\<rparr>,
      tp_v = v, tp_a = 0, relative_time = t, steer = 0\<rparr>"

definition sample_vehicle :: "double \<Rightarrow> double \<Rightarrow> VehicleState" where
  "sample_vehicle x y =
     \<lparr>vs_x = x, vs_y = y, vs_z = Finite 0, vs_heading = Finite 0,
      vs_kappa = Finite 0, vs_linear_velocity = Finite 0, vs_linear_acceleration = Finite 0,
      vs_timestamp = 0\<rparr>"

text \<open>The example of the specification: velocities \<open>[1, 1, 1, -1, -1, -1]\<close>, one metre
  apart on the x axis, one second apart.\<close>

definition drive_then_reverse :: "TrajectoryPoint list" where
  "drive_then_reverse =
     [sample_point 0 0 1 0, sample_point 1 0 1 1, sample_point 2 0 1 2,
      sample_point 3 0 (- 1) 3, sample_point 4 0 (- 1) 4, sample_point 5 0 (- 1) 5]"

definition all_reverse :: "TrajectoryPoint list" where
  "all_reverse = [sample_point 0 0 (- 1) 0, sample_point 1 0 (- 1) 1, sample_point 2 0 (- 1) 2]"

definition all_ambiguous :: "TrajectoryPoint list" where
  "all_ambiguous = [sample_point 0 0 0 0, sample_point 1 0 0 1, sample_point 2 0 0 2]"

definition unordered_times :: "TrajectoryPoint list" where
  "unordered_times = [sample_point 0 0 1 0, sample_point 1 0 1 2, sample_point 2 0 1 1]"

text \<open>A sample cycle: the stitcher returns one point, the frame initialisation answers
  \<open>init_status\<close> and finds one obstacle, the planner succeeds with the points \<open>planned\<close>,
  every pair of boxes overlaps or none does, the clock reads 0, 1, 2, ...\<close>

definition sample_flags :: "bool \<Rightarrow> bool \<Rightarrow> Flags" where
  "sample_flags with_estop with_fallback =
     \<lparr>estimate_current_vehicle_state = False, publish_estop = with_estop,
      use_planning_fallback = with_fallback, enable_stitch_last_trajectory = True,
      open_space_planning_period = 1 / 10, trajectory_time_length = 3,
      trajectory_time_resolution = 1\<rparr>"

definition sample_obstacle :: Obstacle where
  "sample_obstacle =
     (\<lambda>t. \<lparr>center_x = 0, center_y = 0, box_heading = 0, box_length = 1, box_width = 1\<rparr>)"

definition sample_collaborators ::
  "VehicleState \<Rightarrow> Status \<Rightarrow> TrajectoryPoint list \<Rightarrow> bool \<Rightarrow> Collaborators" where
  "sample_collaborators vs init_status planned overlap =
     \<lparr>clock = (\<lambda>n. real n), Update = Status_OK, vehicle_state = vs,
      EstimateFuturePosition = (\<lambda>dt. (vs_x vs, vs_y vs)),
      ComputeStitchingTrajectory = (\<lambda>vs t period lp. [sample_point 0 0 0 0]),
      InitForOpenSpace = (\<lambda>frame. (init_status, frame\<lparr>frame_obstacles := [sample_obstacle]\<rparr>)),
      planner_Plan = (\<lambda>p frame. (Status_OK,
        frame\<lparr>frame_trajectory := (frame_trajectory frame)\<lparr>trajectory_point := planned\<rparr>\<rparr>)),
      fallback_points = (\<lambda>lp t. [sample_point 0 0 0 5]),
      HasOverlap = (\<lambda>a b. overlap),
      vehicle_param = \<lparr>vp_length = 4, vp_width = 2, back_edge_to_center = 1\<rparr>,
      ToString = error_message\<rparr>"

definition sample_local_view :: LocalView where
  "sample_local_view =
     \<lparr>prediction_obstacles_header = None, routing = \<lparr>rr_header = None, rr_payload = 0\<rparr>\<rparr>"

definition sample_state :: PlanningState where
  "sample_state =
     \<lparr>seq_num = 0, last_publishable_trajectory = None,
      last_routing = \<lparr>rr_header = None, rr_payload = 0\<rparr>,
      predicted_bounding_rectangles = [], frame_history = []\<rparr>"

definition all_drive :: "TrajectoryPoint list" where
  "all_drive = [sample_point 0 0 1 0, sample_point 1 0 1 1, sample_point 2 0 1 2]"

definition reverse_after_one :: "TrajectoryPoint list" where
  "reverse_after_one =
     [sample_point 0 0 1 0, sample_point 1 0 (- 1) 1, sample_point 2 0 (- 1) 2]"

definition drive_stop_reverse :: "TrajectoryPoint list" where
  "drive_stop_reverse =
     [sample_point 0 0 1 0, sample_point 1 0 0 1, sample_point 2 0 0 2,
      sample_point 3 0 (- 1) 3, sample_point 4 0 (- 1) 4, sample_point 5 0 (- 1) 5]"

section \<open>Properties of the gear partitioner\<close>

lemmas partition_eval =
  partition_segments_def initial_gear_scan.simps initial_gear_check_horizon_def kepsilon_def
  initial_gear_def partition_points_def partition_step_def partition_init_def
  add_trajectory_def add_trajectory_point_def point_distance_def Let_def
  upt_rec [of _ "numeral _"] sample_point_def

lemmas closest_eval =
  emit_closest_def choose_closest_def closest_trajectory_step_def closest_point_step_def
  closest_init_def sq_distance_def DBL_MAX_def shift_relative_time_def sample_vehicle_def

lemma fold_upt_Suc: "fold f [0..<Suc n] s = f n (fold f [0..<n] s)"
  by simp

lemma kepsilon_pos: "0 < kepsilon"
  by (simp add: kepsilon_def)

subsection \<open>The scan for the first gear\<close>

text \<open>A scan that returns has counted three unambiguous samples, so the tie-breaker
  \<open>init_direction\<close> it returns is never zero.\<close>

lemma initial_gear_scan_init_direction:
  "initial_gear_scan pts i j d n = Inr (d', n') \<Longrightarrow> i \<le> initial_gear_check_horizon \<Longrightarrow>
   (i = 0 \<or> n \<noteq> 0) \<Longrightarrow> n' \<noteq> 0"
proof (induction pts i j d n rule: initial_gear_scan.induct)
  case (1 pts i j d n)
  show ?case
  proof (cases "i = initial_gear_check_horizon")
    case True
    with "1.prems" show ?thesis
      by (simp add: initial_gear_scan.simps initial_gear_check_horizon_def)
  next
    case False
    note ne = this
    show ?thesis
    proof (cases "length pts \<le> j")
      case True
      with ne "1.prems" show ?thesis by (simp add: initial_gear_scan.simps)
    next
      case False
      note inr = this
      consider (pos) "tp_v (pts ! j) > kepsilon"
        | (neg) "\<not> tp_v (pts ! j) > kepsilon" "tp_v (pts ! j) < - kepsilon"
        | (amb) "\<not> tp_v (pts ! j) > kepsilon" "\<not> tp_v (pts ! j) < - kepsilon"
        by blast
      then show ?thesis
      proof cases
        case pos
        with ne inr "1.prems" have
          "initial_gear_scan pts (i + 1) (j + 1) (d + 1) (if n = 0 then n + 1 else n) = Inr (d', n')"
          by (simp add: initial_gear_scan.simps [of pts i j])
        moreover have "i + 1 \<le> initial_gear_check_horizon" using ne "1.prems" by simp
        ultimately show ?thesis
          using "1.IH"(1) [OF ne inr pos] by simp
      next
        case neg
        with ne inr "1.prems" have
          "initial_gear_scan pts (i + 1) (j + 1) (d - 1) (if n = 0 then n - 1 else n) = Inr (d', n')"
          by (simp add: initial_gear_scan.simps [of pts i j])
        moreover have "i + 1 \<le> initial_gear_check_horizon" using ne "1.prems" by simp
        ultimately show ?thesis
          using "1.IH"(2) [OF ne inr neg] by simp
      next
        case amb
        with ne inr "1.prems" have
          "initial_gear_scan pts i (j + 1) d n = Inr (d', n')"
          by (simp add: initial_gear_scan.simps [of pts i j])
        then show ?thesis
          using "1.IH"(3) [OF ne inr amb] "1.prems" by simp
      qed
    qed
  qed
qed

lemma initial_gear_after_scan:
  assumes "initial_gear_scan pts 0 0 0 0 = Inr (d, n)"
  shows "\<exists>g. initial_gear d n = Inr g"
proof -
  have "n \<noteq> 0"
    using initial_gear_scan_init_direction [OF assms] by simp
  then show ?thesis by (simp add: initial_gear_def)
qed

text \<open>So the error branch of the first gear is dead: the partition either reads out of
  range, or rejects a short trajectory, or produces segments.\<close>

lemma partition_segments_cases:
  "(\<exists>f. partition_segments pts = Inl f)
   \<or> partition_segments pts = Inr (Inl (Status PLANNING_ERROR ''Invalid trajectory length!''))
   \<or> (\<exists>ps. partition_segments pts = Inr (Inr ps))"
proof (cases "length pts < initial_gear_check_horizon")
  case True
  then show ?thesis by (simp add: partition_segments_def)
next
  case False
  show ?thesis
  proof (cases "initial_gear_scan pts 0 0 0 0")
    case (Inl f)
    with False show ?thesis by (simp add: partition_segments_def)
  next
    case (Inr r)
    obtain d n where r: "r = (d, n)" by (cases r)
    from initial_gear_after_scan [OF Inr [unfolded r]] obtain g where "initial_gear d n = Inr g" ..
    with Inr r False show ?thesis by (simp add: partition_segments_def)
  qed
qed

lemma initial_gear_scan_all_ambiguous:
  "i \<noteq> initial_gear_check_horizon \<Longrightarrow> \<forall>p\<in>set pts. \<bar>tp_v p\<bar> \<le> kepsilon \<Longrightarrow>
   initial_gear_scan pts i j d n = Inl OutOfRange"
proof (induction pts i j d n rule: initial_gear_scan.induct)
  case (1 pts i j d n)
  show ?case
  proof (cases "length pts \<le> j")
    case True
    with "1.prems" show ?thesis by (simp add: initial_gear_scan.simps)
  next
    case False
    then have "\<bar>tp_v (pts ! j)\<bar> \<le> kepsilon" using "1.prems" by simp
    then have amb: "\<not> tp_v (pts ! j) > kepsilon" "\<not> tp_v (pts ! j) < - kepsilon" by auto
    have "initial_gear_scan pts i j d n = initial_gear_scan pts i (j + 1) d n"
      using "1.prems"(1) False amb by (simp add: initial_gear_scan.simps [of pts i j])
    also have "\<dots> = Inl OutOfRange"
      using "1.IH"(3) [OF "1.prems"(1) False amb] "1.prems" by simp
    finally show ?thesis .
  qed
qed

subsection \<open>The partition loop\<close>

lemma partition_step_shape:
  assumes "trajectory_partition st \<noteq> []"
  shows "\<exists>p. relative_time p = relative_time (pts ! i)
     \<and> concat (trajectory_partition (partition_step pts i st)) = concat (trajectory_partition st) @ [p]"
  using assms
  by (cases "trajectory_partition st" rule: rev_cases)
     (simp_all add: partition_step_def Let_def add_trajectory_def add_trajectory_point_def
       butlast_append)

lemma partition_step_lengths:
  assumes "length (trajectory_partition st) = length (gear_positions st)" "gear_positions st \<noteq> []"
  shows "length (trajectory_partition (partition_step pts i st)) = length (gear_positions (partition_step pts i st))
     \<and> gear_positions (partition_step pts i st) \<noteq> []
     \<and> length (gear_positions st) \<le> length (gear_positions (partition_step pts i st))"
  using assms
  by (cases "trajectory_partition st" rule: rev_cases)
     (auto simp add: partition_step_def Let_def add_trajectory_def add_trajectory_point_def)

lemma partition_fold_lengths:
  "length (trajectory_partition (fold (partition_step pts) [0..<n] (partition_init g)))
     = length (gear_positions (fold (partition_step pts) [0..<n] (partition_init g)))
   \<and> gear_positions (fold (partition_step pts) [0..<n] (partition_init g)) \<noteq> []"
proof (induction n)
  case 0
  show ?case by (simp add: partition_init_def)
next
  case (Suc n)
  then show ?case
    using partition_step_lengths [of "fold (partition_step pts) [0..<n] (partition_init g)" pts n]
    by (simp del: upt_Suc add: fold_upt_Suc)
qed

text \<open>The segments, one after the other, are the input in its order (here: its times).\<close>

lemma partition_fold_times:
  "n \<le> length pts \<Longrightarrow>
   map relative_time (concat (trajectory_partition (fold (partition_step pts) [0..<n] (partition_init g))))
     = map relative_time (take n pts)"
proof (induction n)
  case 0
  show ?case by (simp add: partition_init_def)
next
  case (Suc n)
  let ?st = "fold (partition_step pts) [0..<n] (partition_init g)"
  have ne: "trajectory_partition ?st \<noteq> []"
    using partition_fold_lengths [of pts n g] by auto
  from partition_step_shape [OF ne, of pts n] obtain p where
    p: "relative_time p = relative_time (pts ! n)"
       "concat (trajectory_partition (partition_step pts n ?st)) = concat (trajectory_partition ?st) @ [p]"
    by blast
  from Suc have "map relative_time (concat (trajectory_partition ?st)) = map relative_time (take n pts)"
    by simp
  with p Suc.prems show ?case
    by (simp del: upt_Suc add: fold_upt_Suc take_Suc_conv_app_nth)
qed

text \<open>While no velocity crosses, the loop keeps one segment; a crossing opens a second.\<close>

lemma partition_step_no_crossing:
  assumes "gear_positions st = [g]" "trajectory_partition st = [seg]" "\<not> crossing g (pts ! i)"
  shows "\<exists>p. tp_v p = tp_v (pts ! i) * gear_sign g
     \<and> trajectory_partition (partition_step pts i st) = [seg @ [p]]
     \<and> gear_positions (partition_step pts i st) = [g]"
  using assms
  by (cases g)
     (simp_all add: partition_step_def Let_def add_trajectory_def add_trajectory_point_def
       crossing_def gear_sign_def)

lemma partition_step_crossing:
  assumes "gear_positions st = [g]" "crossing g (pts ! i)"
  shows "length (gear_positions (partition_step pts i st)) = 2"
  using assms kepsilon_pos
  by (cases g)
     (simp_all add: partition_step_def Let_def add_trajectory_def add_trajectory_point_def
       crossing_def)

lemma partition_fold_no_crossing:
  "\<forall>k<n. \<not> crossing g (pts ! k) \<Longrightarrow>
   \<exists>seg. trajectory_partition (fold (partition_step pts) [0..<n] (partition_init g)) = [seg]
     \<and> gear_positions (fold (partition_step pts) [0..<n] (partition_init g)) = [g]
     \<and> length seg = n
     \<and> (\<forall>k<n. tp_v (seg ! k) = tp_v (pts ! k) * gear_sign g)"
proof (induction n)
  case 0
  show ?case by (simp add: partition_init_def)
next
  case (Suc n)
  let ?st = "fold (partition_step pts) [0..<n] (partition_init g)"
  from Suc obtain seg where seg:
    "trajectory_partition ?st = [seg]" "gear_positions ?st = [g]" "length seg = n"
    "\<forall>k<n. tp_v (seg ! k) = tp_v (pts ! k) * gear_sign g"
    by auto
  have "\<not> crossing g (pts ! n)" using Suc.prems by simp
  from partition_step_no_crossing [OF seg(2) seg(1) this] obtain p where p:
    "tp_v p = tp_v (pts ! n) * gear_sign g"
    "trajectory_partition (partition_step pts n ?st) = [seg @ [p]]"
    "gear_positions (partition_step pts n ?st) = [g]"
    by blast
  have "\<forall>k<Suc n. tp_v ((seg @ [p]) ! k) = tp_v (pts ! k) * gear_sign g"
    using seg(3,4) p(1) by (auto simp add: nth_append less_Suc_eq)
  with p seg(3) show ?case
    by (simp del: upt_Suc add: fold_upt_Suc)
qed

lemma partition_fold_one_segment:
  "length (gear_positions (fold (partition_step pts) [0..<n] (partition_init g))) = 1 \<Longrightarrow>
   \<forall>k<n. \<not> crossing g (pts ! k)"
proof (induction n)
  case 0
  show ?case by simp
next
  case (Suc n)
  let ?st = "fold (partition_step pts) [0..<n] (partition_init g)"
  have len: "length (trajectory_partition ?st) = length (gear_positions ?st)" "gear_positions ?st \<noteq> []"
    using partition_fold_lengths [of pts n g] by auto
  have "length (gear_positions ?st) \<le> length (gear_positions (partition_step pts n ?st))"
    using partition_step_lengths [OF len] by simp
  with Suc.prems len(2) have one: "length (gear_positions ?st) = 1"
    by (cases "gear_positions ?st") (simp_all del: upt_Suc add: fold_upt_Suc)
  then have before: "\<forall>k<n. \<not> crossing g (pts ! k)" using Suc.IH by simp
  from partition_fold_no_crossing [OF before] have g: "gear_positions ?st = [g]" by auto
  have "\<not> crossing g (pts ! n)"
  proof
    assume "crossing g (pts ! n)"
    from partition_step_crossing [OF g this] Suc.prems show False
      by (simp del: upt_Suc add: fold_upt_Suc)
  qed
  with before show ?case by (simp add: less_Suc_eq)
qed

subsection \<open>The choice of the closest point\<close>

lemma closest_point_step_cases:
  "closest_point_step vs seg i j st = st
     \<and> (\<forall>d. sq_distance (path_point (seg ! j)) vs = Some d \<longrightarrow> min_distance st \<le> d)
   \<or> closest_point_step vs seg i j st =
        \<lparr>min_distance = the (sq_distance (path_point (seg ! j)) vs),
         current_trajectory_index = i, closest_trajectory_point_index = j\<rparr>
     \<and> sq_distance (path_point (seg ! j)) vs = Some (min_distance (closest_point_step vs seg i j st))
     \<and> min_distance (closest_point_step vs seg i j st) < min_distance st"
  by (cases "sq_distance (path_point (seg ! j)) vs") (auto simp add: closest_point_step_def)

lemma closest_point_fold:
  fixes vs seg i st m
  defines "st' \<equiv> fold (closest_point_step vs seg i) [0..<m] st"
  shows "min_distance st' \<le> min_distance st
    \<and> (\<forall>j<m. \<forall>d. sq_distance (path_point (seg ! j)) vs = Some d \<longrightarrow> min_distance st' \<le> d)
    \<and> (st' = st
       \<or> current_trajectory_index st' = i \<and> closest_trajectory_point_index st' < m
         \<and> sq_distance (path_point (seg ! closest_trajectory_point_index st')) vs = Some (min_distance st')
         \<and> min_distance st' < min_distance st
         \<and> (\<forall>j<closest_trajectory_point_index st'. \<forall>d.
               sq_distance (path_point (seg ! j)) vs = Some d \<longrightarrow> min_distance st' < d))"
  unfolding st'_def
proof (induction m)
  case 0
  show ?case by simp
next
  case (Suc m)
  let ?s = "fold (closest_point_step vs seg i) [0..<m] st"
  let ?t = "closest_point_step vs seg i m ?s"
  have step: "fold (closest_point_step vs seg i) [0..<Suc m] st = ?t" by simp
  from Suc have le: "min_distance ?s \<le> min_distance st"
    and all: "\<forall>j<m. \<forall>d. sq_distance (path_point (seg ! j)) vs = Some d \<longrightarrow> min_distance ?s \<le> d"
    and pick: "?s = st
       \<or> current_trajectory_index ?s = i \<and> closest_trajectory_point_index ?s < m
         \<and> sq_distance (path_point (seg ! closest_trajectory_point_index ?s)) vs = Some (min_distance ?s)
         \<and> min_distance ?s < min_distance st
         \<and> (\<forall>j<closest_trajectory_point_index ?s. \<forall>d.
               sq_distance (path_point (seg ! j)) vs = Some d \<longrightarrow> min_distance ?s < d)"
    by blast+
  from closest_point_step_cases [of vs seg i m ?s]
  show ?case
  proof (elim disjE conjE)
    assume same: "?t = ?s"
      and ge: "\<forall>d. sq_distance (path_point (seg ! m)) vs = Some d \<longrightarrow> min_distance ?s \<le> d"
    have "\<forall>j<Suc m. \<forall>d. sq_distance (path_point (seg ! j)) vs = Some d \<longrightarrow> min_distance ?s \<le> d"
      using all ge by (auto simp add: less_Suc_eq)
    moreover have "closest_trajectory_point_index ?s < m \<Longrightarrow> closest_trajectory_point_index ?s < Suc m"
      by simp
    ultimately show ?case
      unfolding step same using le pick by blast
  next
    assume new: "?t = \<lparr>min_distance = the (sq_distance (path_point (seg ! m)) vs),
         current_trajectory_index = i, closest_trajectory_point_index = m\<rparr>"
      and d: "sq_distance (path_point (seg ! m)) vs = Some (min_distance ?t)"
      and lt: "min_distance ?t < min_distance ?s"
    have idx: "current_trajectory_index ?t = i" "closest_trajectory_point_index ?t = m"
      by (simp_all add: new)
    have a: "min_distance ?t \<le> min_distance st" using lt le by simp
    have b: "\<forall>j<Suc m. \<forall>d. sq_distance (path_point (seg ! j)) vs = Some d \<longrightarrow> min_distance ?t \<le> d"
      using all lt d by (auto simp add: less_Suc_eq)
    have c: "\<forall>j<m. \<forall>d. sq_distance (path_point (seg ! j)) vs = Some d \<longrightarrow> min_distance ?t < d"
      using all lt by fastforce
    have e: "min_distance ?t < min_distance st" using lt le by simp
    show ?case
      unfolding step using a b c d e idx by simp
  qed
qed

lemma closest_trajectory_fold:
  fixes vs segs n
  defines "st' \<equiv> fold (closest_trajectory_step vs segs) [0..<n] closest_init"
  shows "(\<forall>i<n. \<forall>j<length (segs ! i). \<forall>d.
            sq_distance (path_point (segs ! i ! j)) vs = Some d \<longrightarrow> min_distance st' \<le> d)
    \<and> (st' = closest_init
       \<or> current_trajectory_index st' < n
         \<and> closest_trajectory_point_index st' < length (segs ! current_trajectory_index st')
         \<and> sq_distance (path_point (segs ! current_trajectory_index st' ! closest_trajectory_point_index st')) vs
             = Some (min_distance st')
         \<and> min_distance st' < DBL_MAX
         \<and> (\<forall>i<current_trajectory_index st'. \<forall>j<length (segs ! i). \<forall>d.
               sq_distance (path_point (segs ! i ! j)) vs = Some d \<longrightarrow> min_distance st' < d)
         \<and> (\<forall>j<closest_trajectory_point_index st'. \<forall>d.
               sq_distance (path_point (segs ! current_trajectory_index st' ! j)) vs = Some d
               \<longrightarrow> min_distance st' < d))"
  unfolding st'_def
proof (induction n)
  case 0
  show ?case by simp
next
  case (Suc n)
  let ?s = "fold (closest_trajectory_step vs segs) [0..<n] closest_init"
  let ?t = "fold (closest_point_step vs (segs ! n) n) [0..<length (segs ! n)] ?s"
  have step: "fold (closest_trajectory_step vs segs) [0..<Suc n] closest_init = ?t"
    by (simp add: closest_trajectory_step_def)
  from Suc have all: "\<forall>i<n. \<forall>j<length (segs ! i). \<forall>d.
            sq_distance (path_point (segs ! i ! j)) vs = Some d \<longrightarrow> min_distance ?s \<le> d"
    and pick: "?s = closest_init
       \<or> current_trajectory_index ?s < n
         \<and> closest_trajectory_point_index ?s < length (segs ! current_trajectory_index ?s)
         \<and> sq_distance (path_point (segs ! current_trajectory_index ?s ! closest_trajectory_point_index ?s)) vs
             = Some (min_distance ?s)
         \<and> min_distance ?s < DBL_MAX
         \<and> (\<forall>i<current_trajectory_index ?s. \<forall>j<length (segs ! i). \<forall>d.
               sq_distance (path_point (segs ! i ! j)) vs = Some d \<longrightarrow> min_distance ?s < d)
         \<and> (\<forall>j<closest_trajectory_point_index ?s. \<forall>d.
               sq_distance (path_point (segs ! current_trajectory_index ?s ! j)) vs = Some d
               \<longrightarrow> min_distance ?s < d)"
    by blast+
  have bound: "min_distance ?s \<le> DBL_MAX"
    using pick by (auto simp add: closest_init_def)
  from closest_point_fold [of vs "segs ! n" n "length (segs ! n)" ?s]
  have le: "min_distance ?t \<le> min_distance ?s"
    and inner: "\<forall>j<length (segs ! n). \<forall>d.
        sq_distance (path_point (segs ! n ! j)) vs = Some d \<longrightarrow> min_distance ?t \<le> d"
    and ipick: "?t = ?s
       \<or> current_trajectory_index ?t = n \<and> closest_trajectory_point_index ?t < length (segs ! n)
         \<and> sq_distance (path_point (segs ! n ! closest_trajectory_point_index ?t)) vs = Some (min_distance ?t)
         \<and> min_distance ?t < min_distance ?s
         \<and> (\<forall>j<closest_trajectory_point_index ?t. \<forall>d.
               sq_distance (path_point (segs ! n ! j)) vs = Some d \<longrightarrow> min_distance ?t < d)"
    by blast+
  have A: "\<forall>i<Suc n. \<forall>j<length (segs ! i). \<forall>d.
            sq_distance (path_point (segs ! i ! j)) vs = Some d \<longrightarrow> min_distance ?t \<le> d"
  proof (intro allI impI)
    fix i j d
    assume i: "i < Suc n" and j: "j < length (segs ! i)"
      and d: "sq_distance (path_point (segs ! i ! j)) vs = Some d"
    show "min_distance ?t \<le> d"
    proof (cases "i = n")
      case True
      with inner j d show ?thesis by blast
    next
      case False
      with i have "i < n" by simp
      with all j d have "min_distance ?s \<le> d" by blast
      with le show ?thesis by simp
    qed
  qed
  from ipick have B: "?t = closest_init
       \<or> current_trajectory_index ?t < Suc n
         \<and> closest_trajectory_point_index ?t < length (segs ! current_trajectory_index ?t)
         \<and> sq_distance (path_point (segs ! current_trajectory_index ?t ! closest_trajectory_point_index ?t)) vs
             = Some (min_distance ?t)
         \<and> min_distance ?t < DBL_MAX
         \<and> (\<forall>i<current_trajectory_index ?t. \<forall>j<length (segs ! i). \<forall>d.
               sq_distance (path_point (segs ! i ! j)) vs = Some d \<longrightarrow> min_distance ?t < d)
         \<and> (\<forall>j<closest_trajectory_point_index ?t. \<forall>d.
               sq_distance (path_point (segs ! current_trajectory_index ?t ! j)) vs = Some d
               \<longrightarrow> min_distance ?t < d)"
  proof
    assume same: "?t = ?s"
    have "current_trajectory_index ?s < n \<Longrightarrow> current_trajectory_index ?s < Suc n" by simp
    with pick show ?thesis unfolding same by blast
  next
    assume new: "current_trajectory_index ?t = n \<and> closest_trajectory_point_index ?t < length (segs ! n)
         \<and> sq_distance (path_point (segs ! n ! closest_trajectory_point_index ?t)) vs = Some (min_distance ?t)
         \<and> min_distance ?t < min_distance ?s
         \<and> (\<forall>j<closest_trajectory_point_index ?t. \<forall>d.
               sq_distance (path_point (segs ! n ! j)) vs = Some d \<longrightarrow> min_distance ?t < d)"
    then have lt: "min_distance ?t < min_distance ?s" by blast
    have "\<forall>i<n. \<forall>j<length (segs ! i). \<forall>d.
               sq_distance (path_point (segs ! i ! j)) vs = Some d \<longrightarrow> min_distance ?t < d"
      using all lt by fastforce
    moreover have "min_distance ?t < DBL_MAX" using lt bound by simp
    ultimately show ?thesis using new by simp
  qed
  show ?case unfolding step using A B by blast
qed

subsection \<open>Arc length at a gear change\<close>

lemma partition_step_crossing_arc_length:
  assumes "gear_positions st = gs @ [g]" "crossing g (pts ! i)" "0 < i"
  shows "\<exists>p. last (trajectory_partition (partition_step pts i st)) = [p]
     \<and> pp_s (path_point p) = point_distance (pts ! i) (pts ! (i - 1))"
  using assms kepsilon_pos
  by (cases g)
     (simp_all add: partition_step_def Let_def add_trajectory_def add_trajectory_point_def
       crossing_def)

text \<open>
  C4. The claim: the arc length of the first point of every gear segment is 0, and for
  the velocities \<open>[1, 1, 1, -1, -1, -1]\<close> the arc length at index 3 is 0. The code
  resets \<^verbatim>\<open>distance_s\<close> at the gear change and then adds the distance from the previous
  point (the last one of the previous segment) before it stores \<open>s\<close>: on the example,
  with the points one metre apart and the vehicle at the fourth point, the emitted
  Reverse segment has the arc lengths \<open>[1, 2, 3]\<close>, not \<open>[0, 1, 2]\<close>.
\<close>

theorem TrajectoryPartition_drive_then_reverse_arc_length:
  "\<exists>ps out. partition_segments drive_then_reverse = Inr (Inr ps)
     \<and> gear_positions ps = [GEAR_DRIVE, GEAR_REVERSE]
     \<and> map (map (pp_s \<circ> path_point)) (trajectory_partition ps) = [0, 1, 2] # [1, 2, 3] # []
     \<and> TrajectoryPartition drive_then_reverse (sample_vehicle (Finite 3) (Finite 0))
          default_ADCTrajectory = Inr (Status_OK, out)
     \<and> gear out = Some GEAR_REVERSE
     \<and> map (pp_s \<circ> path_point) (trajectory_point out) = [1, 2, 3]"
  by (simp add: TrajectoryPartition_def partition_eval closest_eval drive_then_reverse_def
      default_ADCTrajectory_def)

subsection \<open>Ambiguous initial velocities\<close>

lemma TrajectoryPartition_never_ambiguous_gear:
  "TrajectoryPartition pts vs trajectory_pb \<noteq>
     Inr (Status PLANNING_ERROR
       ''Invalid trajectory start! initial speeds too small to decide gear'', out)"
  using partition_segments_cases [of pts]
  by (auto simp add: TrajectoryPartition_def Status_OK_def split: sum.splits)

lemma TrajectoryPartition_ambiguous_prefix:
  "\<exists>out. TrajectoryPartition
       [sample_point 0 0 0 0, sample_point 1 0 0 1, sample_point 2 0 0 2,
        sample_point 3 0 1 3, sample_point 4 0 1 4, sample_point 5 0 1 5]
       (sample_vehicle (Finite 0) (Finite 0)) default_ADCTrajectory = Inr (Status_OK, out)
     \<and> gear out = Some GEAR_DRIVE \<and> length (trajectory_point out) = 6"
  by (simp add: TrajectoryPartition_def partition_eval closest_eval default_ADCTrajectory_def)

text \<open>
  C5. The claim: a trajectory whose first three samples are all velocity-ambiguous makes
  the partitioner fail with the error "initial speeds too small to decide gear". The
  scan does not stop after three samples: it goes on until it has counted three
  unambiguous ones, with no bound on the index. On a trajectory of at least three
  points whose velocities are all within \<open>kepsilon\<close> of zero it reads past the end of
  the trajectory, and the error is never returned.
\<close>

theorem TrajectoryPartition_all_ambiguous:
  assumes "initial_gear_check_horizon \<le> length pts"
    and "\<forall>p\<in>set pts. \<bar>tp_v p\<bar> \<le> kepsilon"
  shows "TrajectoryPartition pts vs trajectory_pb = Inl OutOfRange"
proof -
  have "initial_gear_scan pts 0 0 0 0 = Inl OutOfRange"
    using initial_gear_scan_all_ambiguous [of 0 pts 0 0 0] assms(2)
    by (simp add: initial_gear_check_horizon_def)
  with assms(1) show ?thesis
    by (simp add: TrajectoryPartition_def partition_segments_def)
qed

theorem TrajectoryPartition_all_ambiguous_witness:
  "initial_gear_check_horizon \<le> length all_ambiguous
   \<and> list_all (\<lambda>p. \<bar>tp_v p\<bar> \<le> kepsilon) all_ambiguous
   \<and> TrajectoryPartition all_ambiguous (sample_vehicle (Finite 0) (Finite 0)) default_ADCTrajectory
       = Inl OutOfRange"
proof -
  have h1: "initial_gear_check_horizon \<le> length all_ambiguous"
    by (simp add: all_ambiguous_def initial_gear_check_horizon_def)
  have h2: "\<forall>p\<in>set all_ambiguous. \<bar>tp_v p\<bar> \<le> kepsilon"
    by (simp add: all_ambiguous_def sample_point_def kepsilon_def)
  from h1 h2 TrajectoryPartition_all_ambiguous [OF h1 h2] show ?thesis
    by (simp add: list_all_iff)
qed

subsection \<open>The emitted segment\<close>

lemma partition_segments_points:
  assumes "partition_segments pts = Inr (Inr ps)"
  shows "\<exists>g. ps = partition_points pts g \<and> initial_gear_check_horizon \<le> length pts"
  using assms
  by (auto simp add: partition_segments_def split: if_splits sum.splits prod.splits)

lemma partition_segments_lengths:
  assumes "partition_segments pts = Inr (Inr ps)"
  shows "length (trajectory_partition ps) = length (gear_positions ps)"
  using partition_segments_points [OF assms] partition_fold_lengths [of pts "length pts"]
  by (auto simp add: partition_points_def)

lemma partition_segments_times:
  assumes "partition_segments pts = Inr (Inr ps)"
  shows "map relative_time (concat (trajectory_partition ps)) = map relative_time pts"
  using partition_segments_points [OF assms] partition_fold_times [of "length pts" pts]
  by (auto simp add: partition_points_def)

lemma sorted_concat_member:
  fixes xss :: "real list list"
  shows "sorted (concat xss) \<Longrightarrow> xs \<in> set xss \<Longrightarrow> sorted xs"
  by (induction xss) (auto simp add: sorted_append)

lemma TrajectoryPartition_emit:
  assumes "partition_segments pts = Inr (Inr ps)"
    and "TrajectoryPartition pts vs trajectory_pb = Inr (st, out)"
  shows "st = Status_OK \<and> emit_closest vs ps trajectory_pb = Inr out"
  using assms by (auto simp add: TrajectoryPartition_def split: sum.splits)

lemma emit_closest_Inr:
  assumes "emit_closest vs ps trajectory_pb = Inr out"
  shows "current_trajectory_index (choose_closest vs ps) < length (trajectory_partition ps)
    \<and> current_trajectory_index (choose_closest vs ps) < length (gear_positions ps)
    \<and> closest_trajectory_point_index (choose_closest vs ps)
        < length (trajectory_partition ps ! current_trajectory_index (choose_closest vs ps))
    \<and> out = trajectory_pb
        \<lparr>trajectory_point :=
           map (shift_relative_time (relative_time
                  (trajectory_partition ps ! current_trajectory_index (choose_closest vs ps)
                     ! closest_trajectory_point_index (choose_closest vs ps))))
             (trajectory_partition ps ! current_trajectory_index (choose_closest vs ps)),
         gear := Some (gear_positions ps ! current_trajectory_index (choose_closest vs ps))\<rparr>"
  using assms by (auto simp add: emit_closest_def Let_def split: if_splits)

text \<open>
  C7 (as amended). The claim: for every partitioned trajectory the emitted segment and
  nearest point minimise the squared planar distance to the vehicle (first in scan order),
  the nearest point's time is exactly 0 after normalisation, and the emitted times are
  non-decreasing. What holds on the code: whenever the partitioner returns, the emitted
  points are those of the selected segment with the selected point's time subtracted,
  under that segment's gear, and the selected point's time is 0; the selection is the
  first minimum in scan order when the vehicle position is finite and some point has a
  squared distance below \<open>DBL_MAX\<close> (the loop starts from \<open>DBL_MAX\<close> and compares with
  \<open><\<close>); the emitted times are non-decreasing when the input times are.
\<close>

theorem TrajectoryPartition_closest_segment:
  fixes vx vy :: real
  defines "sqd \<equiv> \<lambda>p. (pp_x (path_point p) - vx) * (pp_x (path_point p) - vx)
                     + (pp_y (path_point p) - vy) * (pp_y (path_point p) - vy)"
  assumes seg: "partition_segments pts = Inr (Inr ps)"
    and run: "TrajectoryPartition pts vs trajectory_pb = Inr (st, out)"
    and ci: "ci = current_trajectory_index (choose_closest vs ps)"
    and cj: "cj = closest_trajectory_point_index (choose_closest vs ps)"
    and segs: "segs = trajectory_partition ps"
  shows "st = Status_OK \<and> ci < length segs \<and> cj < length (segs ! ci)
    \<and> trajectory_point out = map (shift_relative_time (relative_time (segs ! ci ! cj))) (segs ! ci)
    \<and> gear out = Some (gear_positions ps ! ci)
    \<and> relative_time (trajectory_point out ! cj) = 0
    \<and> (vs_x vs = Finite vx \<and> vs_y vs = Finite vy
        \<and> (\<exists>i<length segs. \<exists>j<length (segs ! i). sqd (segs ! i ! j) < DBL_MAX)
        \<longrightarrow> (\<forall>i<length segs. \<forall>j<length (segs ! i).
               sqd (segs ! ci ! cj) \<le> sqd (segs ! i ! j)
               \<and> (i < ci \<or> i = ci \<and> j < cj \<longrightarrow> sqd (segs ! ci ! cj) < sqd (segs ! i ! j))))
    \<and> (sorted (map relative_time pts) \<longrightarrow> sorted (map relative_time (trajectory_point out)))"
proof -
  from TrajectoryPartition_emit [OF seg run] have ok: "st = Status_OK"
    and emit: "emit_closest vs ps trajectory_pb = Inr out" by simp_all
  from emit_closest_Inr [OF emit] have rng: "ci < length segs" "cj < length (segs ! ci)"
    and out: "trajectory_point out = map (shift_relative_time (relative_time (segs ! ci ! cj))) (segs ! ci)"
      "gear out = Some (gear_positions ps ! ci)"
    by (simp_all add: ci cj segs)
  have zero: "relative_time (trajectory_point out ! cj) = 0"
    using rng(2) by (simp add: out(1) shift_relative_time_def)
  have closest: "\<forall>i<length segs. \<forall>j<length (segs ! i).
               sqd (segs ! ci ! cj) \<le> sqd (segs ! i ! j)
               \<and> (i < ci \<or> i = ci \<and> j < cj \<longrightarrow> sqd (segs ! ci ! cj) < sqd (segs ! i ! j))"
    if fin: "vs_x vs = Finite vx" "vs_y vs = Finite vy"
      and near: "\<exists>i<length segs. \<exists>j<length (segs ! i). sqd (segs ! i ! j) < DBL_MAX"
  proof -
    have sq: "sq_distance (path_point p) vs = Some (sqd p)" for p
      by (simp add: sq_distance_def fin sqd_def)
    let ?c = "choose_closest vs ps"
    have len: "length (gear_positions ps) = length segs"
      using partition_segments_lengths [OF seg] by (simp add: segs)
    have c: "?c = fold (closest_trajectory_step vs segs) [0..<length segs] closest_init"
      by (simp add: choose_closest_def len segs)
    note F = closest_trajectory_fold [of "length segs" segs vs, folded c, unfolded sq]
    from F have all: "\<forall>i<length segs. \<forall>j<length (segs ! i). min_distance ?c \<le> sqd (segs ! i ! j)"
      by blast
    from F have pick: "?c = closest_init
        \<or> sqd (segs ! ci ! cj) = min_distance ?c
          \<and> (\<forall>i<ci. \<forall>j<length (segs ! i). min_distance ?c < sqd (segs ! i ! j))
          \<and> (\<forall>j<cj. min_distance ?c < sqd (segs ! ci ! j))"
      unfolding ci cj by blast
    from near all have "min_distance ?c < DBL_MAX" by fastforce
    then have "?c \<noteq> closest_init" by (auto simp add: closest_init_def)
    with pick have m: "sqd (segs ! ci ! cj) = min_distance ?c"
      and before: "\<forall>i<ci. \<forall>j<length (segs ! i). min_distance ?c < sqd (segs ! i ! j)"
      and within: "\<forall>j<cj. min_distance ?c < sqd (segs ! ci ! j)"
      by blast+
    show ?thesis
      using all before within by (auto simp add: m)
  qed
  have mono: "sorted (map relative_time (trajectory_point out))"
    if times: "sorted (map relative_time pts)"
  proof -
    have "sorted (concat (map (map relative_time) segs))"
      using partition_segments_times [OF seg] times by (simp add: segs map_concat)
    moreover have "map relative_time (segs ! ci) \<in> set (map (map relative_time) segs)"
      using rng(1) by simp
    ultimately have s: "sorted (map relative_time (segs ! ci))"
      by (rule sorted_concat_member)
    have "map relative_time (trajectory_point out)
        = map (\<lambda>t. t - relative_time (segs ! ci ! cj)) (map relative_time (segs ! ci))"
      by (simp add: out(1) shift_relative_time_def comp_def)
    moreover have "sorted (map (\<lambda>t. t - relative_time (segs ! ci ! cj)) (map relative_time (segs ! ci)))"
      using s by (simp add: sorted_map sorted_wrt_iff_nth_less)
    ultimately show ?thesis by simp
  qed
  show ?thesis
    using ok rng out zero closest mono by blast
qed

text \<open>The claim C7 as stated fails on an input whose times are not in order: the code does
  not sort or check them.\<close>

theorem TrajectoryPartition_times_not_sorted:
  "\<exists>out. TrajectoryPartition unordered_times (sample_vehicle (Finite 0) (Finite 0))
       default_ADCTrajectory = Inr (Status_OK, out)
     \<and> map relative_time (trajectory_point out) = [0, 2, 1]
     \<and> \<not> sorted (map relative_time (trajectory_point out))"
  by (simp add: TrajectoryPartition_def partition_eval closest_eval unordered_times_def
      default_ADCTrajectory_def)

theorem TrajectoryPartition_closest_segment_witness:
  "\<exists>ps out. partition_segments drive_then_reverse = Inr (Inr ps)
     \<and> TrajectoryPartition drive_then_reverse (sample_vehicle (Finite 3) (Finite 0))
          default_ADCTrajectory = Inr (Status_OK, out)
     \<and> sorted (map relative_time drive_then_reverse)
     \<and> current_trajectory_index (choose_closest (sample_vehicle (Finite 3) (Finite 0)) ps) = 1
     \<and> closest_trajectory_point_index (choose_closest (sample_vehicle (Finite 3) (Finite 0)) ps) = 0
     \<and> pp_x (path_point (trajectory_partition ps ! 1 ! 0)) = 3
     \<and> vs_x (sample_vehicle (Finite 3) (Finite 0)) = Finite 3
     \<and> vs_y (sample_vehicle (Finite 3) (Finite 0)) = Finite 0
     \<and> (pp_x (path_point (trajectory_partition ps ! 1 ! 0)) - 3)
           * (pp_x (path_point (trajectory_partition ps ! 1 ! 0)) - 3)
         + (pp_y (path_point (trajectory_partition ps ! 1 ! 0)) - 0)
           * (pp_y (path_point (trajectory_partition ps ! 1 ! 0)) - 0) < DBL_MAX
     \<and> (pp_x (path_point (trajectory_partition ps ! 1 ! 0)) - 3)
           * (pp_x (path_point (trajectory_partition ps ! 1 ! 0)) - 3)
         + (pp_y (path_point (trajectory_partition ps ! 1 ! 0)) - 0)
           * (pp_y (path_point (trajectory_partition ps ! 1 ! 0)) - 0)
         < (pp_x (path_point (trajectory_partition ps ! 0 ! 2)) - 3)
           * (pp_x (path_point (trajectory_partition ps ! 0 ! 2)) - 3)
         + (pp_y (path_point (trajectory_partition ps ! 0 ! 2)) - 0)
           * (pp_y (path_point (trajectory_partition ps ! 0 ! 2)) - 0)
     \<and> gear out = Some GEAR_REVERSE
     \<and> relative_time (trajectory_point out ! 0) = 0
     \<and> sorted (map relative_time (trajectory_point out))"
proof -
  let ?vs = "sample_vehicle (Finite 3) (Finite 0)"
  let ?ps = "partition_points drive_then_reverse GEAR_DRIVE"
  have seg: "partition_segments drive_then_reverse = Inr (Inr ?ps)"
    by (simp add: partition_eval drive_then_reverse_def)
  have "\<exists>out. TrajectoryPartition drive_then_reverse ?vs default_ADCTrajectory = Inr (Status_OK, out)"
    by (simp add: TrajectoryPartition_def partition_eval closest_eval drive_then_reverse_def)
  then obtain out where run:
    "TrajectoryPartition drive_then_reverse ?vs default_ADCTrajectory = Inr (Status_OK, out)" ..
  have times: "sorted (map relative_time drive_then_reverse)"
    by (simp add: drive_then_reverse_def sample_point_def)
  have ci: "current_trajectory_index (choose_closest ?vs ?ps) = 1"
    and cj: "closest_trajectory_point_index (choose_closest ?vs ?ps) = 0"
    and x: "pp_x (path_point (trajectory_partition ?ps ! 1 ! 0)) = 3"
    and g: "gear_positions ?ps ! 1 = GEAR_REVERSE"
    by (simp_all add: partition_eval closest_eval drive_then_reverse_def)
  note T = TrajectoryPartition_closest_segment [OF seg run ci [symmetric] cj [symmetric] refl, of 3 0]
  have fin: "vs_x ?vs = Finite 3" "vs_y ?vs = Finite 0"
    by (simp_all add: sample_vehicle_def)
  have len: "length (trajectory_partition ?ps) = 2" "length (trajectory_partition ?ps ! 0) = 3"
    "length (trajectory_partition ?ps ! 1) = 3"
    by (simp_all add: partition_eval drive_then_reverse_def)
  have d: "(pp_x (path_point (trajectory_partition ?ps ! 1 ! 0)) - 3)
           * (pp_x (path_point (trajectory_partition ?ps ! 1 ! 0)) - 3)
         + (pp_y (path_point (trajectory_partition ?ps ! 1 ! 0)) - 0)
           * (pp_y (path_point (trajectory_partition ?ps ! 1 ! 0)) - 0) < DBL_MAX"
    by (simp add: partition_eval drive_then_reverse_def DBL_MAX_def)
  have near: "\<exists>i<length (trajectory_partition ?ps). \<exists>j<length (trajectory_partition ?ps ! i).
      (pp_x (path_point (trajectory_partition ?ps ! i ! j)) - 3)
           * (pp_x (path_point (trajectory_partition ?ps ! i ! j)) - 3)
         + (pp_y (path_point (trajectory_partition ?ps ! i ! j)) - 0)
           * (pp_y (path_point (trajectory_partition ?ps ! i ! j)) - 0) < DBL_MAX"
    using d len by (intro exI [of _ 1] exI [of _ 0] conjI) simp_all
  from T fin near have "\<forall>i<length (trajectory_partition ?ps). \<forall>j<length (trajectory_partition ?ps ! i).
      (i < 1 \<or> i = 1 \<and> j < 0 \<longrightarrow>
      (pp_x (path_point (trajectory_partition ?ps ! 1 ! 0)) - 3)
           * (pp_x (path_point (trajectory_partition ?ps ! 1 ! 0)) - 3)
         + (pp_y (path_point (trajectory_partition ?ps ! 1 ! 0)) - 0)
           * (pp_y (path_point (trajectory_partition ?ps ! 1 ! 0)) - 0)
       < (pp_x (path_point (trajectory_partition ?ps ! i ! j)) - 3)
           * (pp_x (path_point (trajectory_partition ?ps ! i ! j)) - 3)
         + (pp_y (path_point (trajectory_partition ?ps ! i ! j)) - 0)
           * (pp_y (path_point (trajectory_partition ?ps ! i ! j)) - 0))"
    unfolding ci cj by blast
  from this [rule_format, of 0 2] have closer: "(pp_x (path_point (trajectory_partition ?ps ! 1 ! 0)) - 3)
           * (pp_x (path_point (trajectory_partition ?ps ! 1 ! 0)) - 3)
         + (pp_y (path_point (trajectory_partition ?ps ! 1 ! 0)) - 0)
           * (pp_y (path_point (trajectory_partition ?ps ! 1 ! 0)) - 0)
       < (pp_x (path_point (trajectory_partition ?ps ! 0 ! 2)) - 3)
           * (pp_x (path_point (trajectory_partition ?ps ! 0 ! 2)) - 3)
         + (pp_y (path_point (trajectory_partition ?ps ! 0 ! 2)) - 0)
           * (pp_y (path_point (trajectory_partition ?ps ! 0 ! 2)) - 0)"
    by (simp add: len)
  from T g have "gear out = Some GEAR_REVERSE" by simp
  moreover from T have "relative_time (trajectory_point out ! 0) = 0" by blast
  moreover from T times have "sorted (map relative_time (trajectory_point out))" by blast
  ultimately show ?thesis
    using seg run times ci cj x fin d closer by blast
qed

subsection \<open>Running the partitioner on its own output\<close>

lemma partition_segments_Inr:
  assumes "partition_segments pts = Inr (Inr ps)"
  shows "\<exists>d n g. initial_gear_scan pts 0 0 0 0 = Inr (d, n) \<and> initial_gear d n = Inr g
     \<and> ps = partition_points pts g \<and> initial_gear_check_horizon \<le> length pts"
  using assms
  by (auto simp add: partition_segments_def split: if_splits sum.splits prod.splits)

text \<open>The scan reads velocities only; on negated velocities it returns negated counters.\<close>

lemma initial_gear_scan_flip:
  "initial_gear_scan pts i j d n = Inr (d', n') \<Longrightarrow> length qs = length pts \<Longrightarrow>
   \<forall>k<length pts. tp_v (qs ! k) = tp_v (pts ! k) * (if flip then - 1 else 1) \<Longrightarrow>
     initial_gear_scan qs i j (if flip then - d else d) (if flip then - n else n)
       = Inr (if flip then - d' else d', if flip then - n' else n')"
proof (induction pts i j d n rule: initial_gear_scan.induct)
  case (1 pts i j d n)
  note len = "1.prems"(2)
  note vel = "1.prems"(3)
  show ?case
  proof (cases "i = initial_gear_check_horizon")
    case True
    with "1.prems" show ?thesis
      by (simp add: initial_gear_scan.simps)
  next
    case False
    note ne = this
    show ?thesis
    proof (cases "length pts \<le> j")
      case True
      with ne "1.prems" show ?thesis by (simp add: initial_gear_scan.simps [of pts i j])
    next
      case False
      note inr = this
      then have v: "tp_v (qs ! j) = tp_v (pts ! j) * (if flip then - 1 else 1)"
        using vel by simp
      consider (pos) "tp_v (pts ! j) > kepsilon"
        | (neg) "\<not> tp_v (pts ! j) > kepsilon" "tp_v (pts ! j) < - kepsilon"
        | (amb) "\<not> tp_v (pts ! j) > kepsilon" "\<not> tp_v (pts ! j) < - kepsilon"
        by blast
      then show ?thesis
      proof cases
        case pos
        with ne inr "1.prems"(1) have r:
          "initial_gear_scan pts (i + 1) (j + 1) (d + 1) (if n = 0 then n + 1 else n) = Inr (d', n')"
          by (simp add: initial_gear_scan.simps [of pts i j])
        from "1.IH"(1) [OF ne inr pos r len vel] ne inr pos v len kepsilon_pos show ?thesis
          by (cases flip; cases "n = 0") (simp_all add: initial_gear_scan.simps [of qs i j])
      next
        case neg
        with ne inr "1.prems"(1) have r:
          "initial_gear_scan pts (i + 1) (j + 1) (d - 1) (if n = 0 then n - 1 else n) = Inr (d', n')"
          by (simp add: initial_gear_scan.simps [of pts i j])
        from "1.IH"(2) [OF ne inr neg r len vel] ne inr neg v len kepsilon_pos show ?thesis
          by (cases flip; cases "n = 0") (simp_all add: initial_gear_scan.simps [of qs i j])
      next
        case amb
        with ne inr "1.prems"(1) have r:
          "initial_gear_scan pts i (j + 1) d n = Inr (d', n')"
          by (simp add: initial_gear_scan.simps [of pts i j])
        from "1.IH"(3) [OF ne inr amb r len vel] ne inr amb v len kepsilon_pos show ?thesis
          by (cases flip; cases "n = 0") (simp_all add: initial_gear_scan.simps [of qs i j])
      qed
    qed
  qed
qed

lemma initial_gear_flip:
  assumes "initial_gear d n = Inr g"
  shows "initial_gear (if g = GEAR_REVERSE then - d else d) (if g = GEAR_REVERSE then - n else n)
     = Inr GEAR_DRIVE"
  using assms by (cases g) (auto simp add: initial_gear_def split: if_splits)

lemma emit_closest_single:
  assumes "trajectory_partition ps = [seg]" "gear_positions ps = [g]" "seg \<noteq> []"
  shows "\<exists>out. emit_closest vs ps trajectory_pb = Inr out
     \<and> length (trajectory_point out) = length seg \<and> gear out = Some g
     \<and> (\<forall>k<length seg. tp_v (trajectory_point out ! k) = tp_v (seg ! k))"
proof -
  let ?c = "choose_closest vs ps"
  have c: "?c = fold (closest_trajectory_step vs [seg]) [0..<1] closest_init"
    by (simp add: choose_closest_def assms)
  from closest_trajectory_fold [of 1 "[seg]" vs, folded c]
  have "?c = closest_init
     \<or> current_trajectory_index ?c < 1
       \<and> closest_trajectory_point_index ?c < length ([seg] ! current_trajectory_index ?c)"
    by blast
  then have "current_trajectory_index ?c = 0 \<and> closest_trajectory_point_index ?c < length seg"
    using assms(3) by (auto simp add: closest_init_def)
  then show ?thesis
    by (simp add: emit_closest_def Let_def assms shift_relative_time_def)
qed

text \<open>When the first run itself made a single segment, the second run always succeeds:
  the first scan has counted three unambiguous samples, which the output stores as
  positive.\<close>

lemma TrajectoryPartition_rerun_single_partition:
  assumes seg: "partition_segments pts = Inr (Inr ps)"
    and one: "length (trajectory_partition ps) = 1"
    and run: "TrajectoryPartition pts vs trajectory_pb = Inr (st, out)"
  shows "\<exists>ps' out'. partition_segments (trajectory_point out) = Inr (Inr ps')
     \<and> length (trajectory_partition ps') = 1
     \<and> TrajectoryPartition (trajectory_point out) vs' trajectory_pb' = Inr (Status_OK, out')
     \<and> length (trajectory_point out') = length (trajectory_point out)
     \<and> length (trajectory_point out) = length pts
     \<and> gear out' = Some GEAR_DRIVE
     \<and> (gear out' = gear out) = (gear out = Some GEAR_DRIVE)"
proof -
  from partition_segments_Inr [OF seg] obtain d n g where
    scan: "initial_gear_scan pts 0 0 0 0 = Inr (d, n)" and gear: "initial_gear d n = Inr g"
    and ps: "ps = partition_points pts g" and len: "initial_gear_check_horizon \<le> length pts"
    by blast
  have "length (gear_positions ps) = 1"
    using partition_segments_lengths [OF seg] one by simp
  then have nc: "\<forall>k<length pts. \<not> crossing g (pts ! k)"
    unfolding ps partition_points_def by (rule partition_fold_one_segment)
  from partition_fold_no_crossing [OF nc] obtain s0 where s0:
    "trajectory_partition ps = [s0]" "gear_positions ps = [g]" "length s0 = length pts"
    "\<forall>k<length pts. tp_v (s0 ! k) = tp_v (pts ! k) * gear_sign g"
    unfolding ps partition_points_def by blast
  have ne0: "s0 \<noteq> []" using s0(3) len by (auto simp add: initial_gear_check_horizon_def)
  from TrajectoryPartition_emit [OF seg run] have emit: "emit_closest vs ps trajectory_pb = Inr out"
    by simp
  from emit_closest_single [OF s0(1,2) ne0, of vs trajectory_pb] emit
  have out: "length (trajectory_point out) = length pts" "gear out = Some g"
    "\<forall>k<length pts. tp_v (trajectory_point out ! k) = tp_v (s0 ! k)"
    by (simp_all add: s0(3))
  let ?qs = "trajectory_point out"
  let ?flip = "g = GEAR_REVERSE"
  have vel: "\<forall>k<length pts. tp_v (?qs ! k) = tp_v (pts ! k) * (if ?flip then - 1 else 1)"
    using out(3) s0(4) by (simp add: gear_sign_def)
  from initial_gear_scan_flip [OF scan out(1) vel]
  have scan': "initial_gear_scan ?qs 0 0 0 0 = Inr (if ?flip then - d else d, if ?flip then - n else n)"
    by (cases g) simp_all
  have seg': "partition_segments ?qs = Inr (Inr (partition_points ?qs GEAR_DRIVE))"
    using scan' initial_gear_flip [OF gear] len out(1)
    by (simp add: partition_segments_def)
  have nc': "\<forall>k<length ?qs. \<not> crossing GEAR_DRIVE (?qs ! k)"
    using nc vel out(1) by (cases g) (auto simp add: crossing_def)
  from partition_fold_no_crossing [OF nc'] obtain s1 where s1:
    "trajectory_partition (partition_points ?qs GEAR_DRIVE) = [s1]"
    "gear_positions (partition_points ?qs GEAR_DRIVE) = [GEAR_DRIVE]"
    "length s1 = length ?qs"
    unfolding partition_points_def by blast
  have ne1: "s1 \<noteq> []" using s1(3) out(1) len by (auto simp add: initial_gear_check_horizon_def)
  from emit_closest_single [OF s1(1,2) ne1, of vs' trajectory_pb'] obtain out' where out':
    "emit_closest vs' (partition_points ?qs GEAR_DRIVE) trajectory_pb' = Inr out'"
    "length (trajectory_point out') = length s1" "gear out' = Some GEAR_DRIVE"
    by blast
  have run': "TrajectoryPartition ?qs vs' trajectory_pb' = Inr (Status_OK, out')"
    by (simp add: TrajectoryPartition_def seg' out'(1))
  show ?thesis
    using seg' s1(1,3) run' out'(2,3) out(1,2) by auto
qed

subsection \<open>Running the partitioner on any of its outputs\<close>

text \<open>Every stored velocity is at least \<open>- kepsilon\<close>: a point is stored under Drive only
  if its velocity is not below \<open>- kepsilon\<close>, and under Reverse, with its sign flipped, only
  if its velocity is not above \<open>kepsilon\<close>.\<close>

lemma partition_step_stored_velocity:
  assumes "trajectory_partition st \<noteq> []"
    and "\<forall>seg\<in>set (trajectory_partition st). \<forall>p\<in>set seg. \<not> tp_v p < - kepsilon"
  shows "\<forall>seg\<in>set (trajectory_partition (partition_step pts i st)).
           \<forall>p\<in>set seg. \<not> tp_v p < - kepsilon"
  using assms kepsilon_pos
  by (cases "trajectory_partition st" rule: rev_cases; cases "last (gear_positions st)")
     (auto simp add: partition_step_def Let_def add_trajectory_def add_trajectory_point_def
       butlast_append)

lemma partition_fold_stored_velocity:
  "\<forall>seg\<in>set (trajectory_partition (fold (partition_step pts) [0..<n] (partition_init g))).
     \<forall>p\<in>set seg. \<not> tp_v p < - kepsilon"
proof (induction n)
  case 0
  show ?case by (simp add: partition_init_def)
next
  case (Suc n)
  have "trajectory_partition (fold (partition_step pts) [0..<n] (partition_init g)) \<noteq> []"
    using partition_fold_lengths [of pts n g] by auto
  from partition_step_stored_velocity [OF this Suc, of pts n] show ?case
    by (simp del: upt_Suc add: fold_upt_Suc)
qed

text \<open>On velocities that are never below \<open>- kepsilon\<close> the scan counts the samples above
  \<open>kepsilon\<close>: it returns with the counter raised to three when there are enough of them,
  and leaves the trajectory otherwise.\<close>

lemma initial_gear_scan_no_negative:
  "i \<le> initial_gear_check_horizon \<Longrightarrow> \<forall>p\<in>set qs. \<not> tp_v p < - kepsilon \<Longrightarrow>
   map_sum id fst (initial_gear_scan qs i j d n)
     = (if initial_gear_check_horizon - i \<le> length (filter (\<lambda>p. kepsilon < tp_v p) (drop j qs))
        then Inr (d + int (initial_gear_check_horizon - i)) else Inl OutOfRange)"
proof (induction qs i j d n rule: initial_gear_scan.induct)
  case (1 qs i j d n)
  show ?case
  proof (cases "i = initial_gear_check_horizon")
    case True
    then show ?thesis by (simp add: initial_gear_scan.simps)
  next
    case False
    note ne = this
    then have lt: "i + 1 \<le> initial_gear_check_horizon" using "1.prems" by simp
    show ?thesis
    proof (cases "length qs \<le> j")
      case True
      with ne "1.prems" show ?thesis by (simp add: initial_gear_scan.simps [of qs i j])
    next
      case False
      note inr = this
      then have mem: "qs ! j \<in> set qs" by simp
      then have nn: "\<not> tp_v (qs ! j) < - kepsilon" using "1.prems"(2) by blast
      have dr: "drop j qs = qs ! j # drop (j + 1) qs"
        using inr by (simp add: Cons_nth_drop_Suc)
      show ?thesis
      proof (cases "tp_v (qs ! j) > kepsilon")
        case True
        have "initial_gear_scan qs i j d n
            = initial_gear_scan qs (i + 1) (j + 1) (d + 1) (if n = 0 then n + 1 else n)"
          using ne inr True by (simp add: initial_gear_scan.simps [of qs i j])
        with "1.IH"(1) [OF ne inr True lt "1.prems"(2)] ne lt True show ?thesis
          by (auto simp add: dr)
      next
        case False
        have "initial_gear_scan qs i j d n = initial_gear_scan qs i (j + 1) d n"
          using ne inr False nn by (simp add: initial_gear_scan.simps [of qs i j])
        with "1.IH"(3) [OF ne inr False nn "1.prems"] False show ?thesis
          by (simp add: dr)
      qed
    qed
  qed
qed

lemma TrajectoryPartition_OK:
  assumes "TrajectoryPartition pts vs trajectory_pb = Inr (Status_OK, out)"
  shows "\<exists>ps. partition_segments pts = Inr (Inr ps) \<and> emit_closest vs ps trajectory_pb = Inr out"
  using assms partition_segments_cases [of pts]
  by (auto simp add: TrajectoryPartition_def Status_OK_def split: sum.splits)

text \<open>
  C8 (as amended). The claim: running the partitioner again on a single-segment output
  gives the same segment boundaries and the same gear. Every output of the partitioner is
  one segment, and its stored velocities are never below \<open>- kepsilon\<close>. What holds on the
  code, for every output of a run that succeeded: the second run rejects an output of
  fewer than three points as too short; on an output with at least three samples above
  \<open>kepsilon\<close> it succeeds and returns one segment with the same number of points under the
  gear Drive, so that the gear is unchanged exactly when it was Drive (a Reverse segment
  is stored with its velocities made positive and is read back as Drive); on an output of
  at least three points with fewer than three samples above \<open>kepsilon\<close> the scan of the
  second run leaves the trajectory.
\<close>

theorem TrajectoryPartition_rerun:
  assumes "TrajectoryPartition pts vs trajectory_pb = Inr (Status_OK, out)"
  shows "(\<forall>p\<in>set (trajectory_point out). \<not> tp_v p < - kepsilon)
    \<and> (length (trajectory_point out) < initial_gear_check_horizon \<longrightarrow>
         TrajectoryPartition (trajectory_point out) vs' trajectory_pb'
           = Inr (Status PLANNING_ERROR ''Invalid trajectory length!'', trajectory_pb'))
    \<and> (initial_gear_check_horizon \<le> length (trajectory_point out)
         \<and> length (filter (\<lambda>p. kepsilon < tp_v p) (trajectory_point out)) < initial_gear_check_horizon \<longrightarrow>
         TrajectoryPartition (trajectory_point out) vs' trajectory_pb' = Inl OutOfRange)
    \<and> (initial_gear_check_horizon \<le> length (filter (\<lambda>p. kepsilon < tp_v p) (trajectory_point out)) \<longrightarrow>
         (\<exists>ps' out'. partition_segments (trajectory_point out) = Inr (Inr ps')
            \<and> length (trajectory_partition ps') = 1
            \<and> TrajectoryPartition (trajectory_point out) vs' trajectory_pb' = Inr (Status_OK, out')
            \<and> length (trajectory_point out') = length (trajectory_point out)
            \<and> gear out' = Some GEAR_DRIVE
            \<and> (gear out' = gear out) = (gear out = Some GEAR_DRIVE)))"
proof -
  let ?qs = "trajectory_point out"
  let ?count = "length (filter (\<lambda>p. kepsilon < tp_v p) ?qs)"
  from TrajectoryPartition_OK [OF assms] obtain ps where
    seg: "partition_segments pts = Inr (Inr ps)" and emit: "emit_closest vs ps trajectory_pb = Inr out"
    by blast
  from partition_segments_Inr [OF seg] obtain g where ps: "ps = partition_points pts g" by blast
  let ?ci = "current_trajectory_index (choose_closest vs ps)"
  let ?cj = "closest_trajectory_point_index (choose_closest vs ps)"
  from emit_closest_Inr [OF emit] have ci: "?ci < length (trajectory_partition ps)"
    and out: "?qs = map (shift_relative_time (relative_time (trajectory_partition ps ! ?ci ! ?cj)))
                 (trajectory_partition ps ! ?ci)"
    by simp_all
  have stored: "\<forall>seg\<in>set (trajectory_partition ps). \<forall>p\<in>set seg. \<not> tp_v p < - kepsilon"
    unfolding ps partition_points_def by (rule partition_fold_stored_velocity)
  have "trajectory_partition ps ! ?ci \<in> set (trajectory_partition ps)" using ci by simp
  with stored have "\<forall>p\<in>set (trajectory_partition ps ! ?ci). \<not> tp_v p < - kepsilon" by blast
  then have nn: "\<forall>p\<in>set ?qs. \<not> tp_v p < - kepsilon"
    unfolding out by (simp add: shift_relative_time_def)
  have short: "TrajectoryPartition ?qs vs' trajectory_pb'
           = Inr (Status PLANNING_ERROR ''Invalid trajectory length!'', trajectory_pb')"
    if "length ?qs < initial_gear_check_horizon"
    using that by (simp add: TrajectoryPartition_def partition_segments_def)
  note scan = initial_gear_scan_no_negative [OF _ nn, of 0 0 0 0, simplified]
  have few: "TrajectoryPartition ?qs vs' trajectory_pb' = Inl OutOfRange"
    if len: "initial_gear_check_horizon \<le> length ?qs" and c: "?count < initial_gear_check_horizon"
  proof -
    from scan c have "map_sum id fst (initial_gear_scan ?qs 0 0 0 0) = Inl OutOfRange" by simp
    then have "initial_gear_scan ?qs 0 0 0 0 = Inl OutOfRange"
      by (cases "initial_gear_scan ?qs 0 0 0 0") simp_all
    with len show ?thesis by (simp add: TrajectoryPartition_def partition_segments_def)
  qed
  have enough: "\<exists>ps' out'. partition_segments ?qs = Inr (Inr ps')
            \<and> length (trajectory_partition ps') = 1
            \<and> TrajectoryPartition ?qs vs' trajectory_pb' = Inr (Status_OK, out')
            \<and> length (trajectory_point out') = length ?qs
            \<and> gear out' = Some GEAR_DRIVE
            \<and> (gear out' = gear out) = (gear out = Some GEAR_DRIVE)"
    if c: "initial_gear_check_horizon \<le> ?count"
  proof -
    have "?count \<le> length ?qs" by (rule length_filter_le)
    with c have len: "initial_gear_check_horizon \<le> length ?qs" by (rule order_trans)
    from scan c have "map_sum id fst (initial_gear_scan ?qs 0 0 0 0)
        = Inr (int initial_gear_check_horizon)" by simp
    then obtain n where sc: "initial_gear_scan ?qs 0 0 0 0 = Inr (int initial_gear_check_horizon, n)"
      by (cases "initial_gear_scan ?qs 0 0 0 0") auto
    have ig: "initial_gear (int initial_gear_check_horizon) n = Inr GEAR_DRIVE"
      by (simp add: initial_gear_def initial_gear_check_horizon_def)
    have seg': "partition_segments ?qs = Inr (Inr (partition_points ?qs GEAR_DRIVE))"
      using len sc ig by (simp add: partition_segments_def)
    have nc: "\<forall>k<length ?qs. \<not> crossing GEAR_DRIVE (?qs ! k)"
      using nn by (simp add: crossing_def)
    from partition_fold_no_crossing [OF nc] obtain s1 where s1:
      "trajectory_partition (partition_points ?qs GEAR_DRIVE) = [s1]"
      "gear_positions (partition_points ?qs GEAR_DRIVE) = [GEAR_DRIVE]"
      "length s1 = length ?qs"
      unfolding partition_points_def by blast
    have ne1: "s1 \<noteq> []" using s1(3) len by (auto simp add: initial_gear_check_horizon_def)
    from emit_closest_single [OF s1(1,2) ne1, of vs' trajectory_pb'] obtain out' where out':
      "emit_closest vs' (partition_points ?qs GEAR_DRIVE) trajectory_pb' = Inr out'"
      "length (trajectory_point out') = length s1" "gear out' = Some GEAR_DRIVE"
      by blast
    have run': "TrajectoryPartition ?qs vs' trajectory_pb' = Inr (Status_OK, out')"
      by (simp add: TrajectoryPartition_def seg' out'(1))
    show ?thesis
      using seg' s1(1,3) run' out'(2,3) by auto
  qed
  from nn short few enough show ?thesis by blast
qed

theorem TrajectoryPartition_rerun_witness:
  "\<exists>out1 out2 out3 out3'.
     TrajectoryPartition reverse_after_one (sample_vehicle (Finite 0) (Finite 0))
       default_ADCTrajectory = Inr (Status_OK, out1)
   \<and> length (trajectory_point out1) = 1
   \<and> TrajectoryPartition (trajectory_point out1) (sample_vehicle (Finite 0) (Finite 0))
       default_ADCTrajectory
       = Inr (Status PLANNING_ERROR ''Invalid trajectory length!'', default_ADCTrajectory)
   \<and> TrajectoryPartition drive_stop_reverse (sample_vehicle (Finite 0) (Finite 0))
       default_ADCTrajectory = Inr (Status_OK, out2)
   \<and> length (trajectory_point out2) = 3
   \<and> length (filter (\<lambda>p. kepsilon < tp_v p) (trajectory_point out2)) = 1
   \<and> TrajectoryPartition (trajectory_point out2) (sample_vehicle (Finite 0) (Finite 0))
       default_ADCTrajectory = Inl OutOfRange
   \<and> TrajectoryPartition all_reverse (sample_vehicle (Finite 0) (Finite 0))
       default_ADCTrajectory = Inr (Status_OK, out3)
   \<and> gear out3 = Some GEAR_REVERSE
   \<and> length (filter (\<lambda>p. kepsilon < tp_v p) (trajectory_point out3)) = 3
   \<and> TrajectoryPartition (trajectory_point out3) (sample_vehicle (Finite 0) (Finite 0))
       default_ADCTrajectory = Inr (Status_OK, out3')
   \<and> length (trajectory_point out3') = 3
   \<and> gear out3' = Some GEAR_DRIVE"
proof -
  let ?vs = "sample_vehicle (Finite 0) (Finite 0)"
  have "\<exists>out. TrajectoryPartition reverse_after_one ?vs default_ADCTrajectory = Inr (Status_OK, out)
      \<and> length (trajectory_point out) = 1"
    by (simp add: TrajectoryPartition_def partition_eval closest_eval reverse_after_one_def)
  then obtain out1 where r1:
    "TrajectoryPartition reverse_after_one ?vs default_ADCTrajectory = Inr (Status_OK, out1)"
    and l1: "length (trajectory_point out1) = 1"
    by blast
  from TrajectoryPartition_rerun [OF r1, of ?vs default_ADCTrajectory] l1
  have c1: "TrajectoryPartition (trajectory_point out1) ?vs default_ADCTrajectory
       = Inr (Status PLANNING_ERROR ''Invalid trajectory length!'', default_ADCTrajectory)"
    by (simp add: initial_gear_check_horizon_def)
  have "\<exists>out. TrajectoryPartition drive_stop_reverse ?vs default_ADCTrajectory = Inr (Status_OK, out)
      \<and> length (trajectory_point out) = 3
      \<and> length (filter (\<lambda>p. kepsilon < tp_v p) (trajectory_point out)) = 1"
    by (simp add: TrajectoryPartition_def partition_eval closest_eval drive_stop_reverse_def)
  then obtain out2 where r2:
    "TrajectoryPartition drive_stop_reverse ?vs default_ADCTrajectory = Inr (Status_OK, out2)"
    and l2: "length (trajectory_point out2) = 3"
    and n2: "length (filter (\<lambda>p. kepsilon < tp_v p) (trajectory_point out2)) = 1"
    by blast
  from TrajectoryPartition_rerun [OF r2, of ?vs default_ADCTrajectory] l2 n2
  have c2: "TrajectoryPartition (trajectory_point out2) ?vs default_ADCTrajectory = Inl OutOfRange"
    by (simp add: initial_gear_check_horizon_def)
  have "\<exists>out. TrajectoryPartition all_reverse ?vs default_ADCTrajectory = Inr (Status_OK, out)
      \<and> gear out = Some GEAR_REVERSE
      \<and> length (trajectory_point out) = 3
      \<and> length (filter (\<lambda>p. kepsilon < tp_v p) (trajectory_point out)) = 3"
    by (simp add: TrajectoryPartition_def partition_eval closest_eval all_reverse_def)
  then obtain out3 where r3:
    "TrajectoryPartition all_reverse ?vs default_ADCTrajectory = Inr (Status_OK, out3)"
    and g3: "gear out3 = Some GEAR_REVERSE"
    and l3: "length (trajectory_point out3) = 3"
    and n3: "length (filter (\<lambda>p. kepsilon < tp_v p) (trajectory_point out3)) = 3"
    by blast
  from TrajectoryPartition_rerun [OF r3, of ?vs default_ADCTrajectory] n3
  have "\<exists>out'. TrajectoryPartition (trajectory_point out3) ?vs default_ADCTrajectory
         = Inr (Status_OK, out')
      \<and> length (trajectory_point out') = length (trajectory_point out3)
      \<and> gear out' = Some GEAR_DRIVE"
    by (auto simp add: initial_gear_check_horizon_def)
  then obtain out3' where c3:
    "TrajectoryPartition (trajectory_point out3) ?vs default_ADCTrajectory = Inr (Status_OK, out3')"
    "length (trajectory_point out3') = 3" "gear out3' = Some GEAR_DRIVE"
    using l3 by auto
  from r1 l1 c1 r2 l2 n2 c2 r3 g3 n3 c3 show ?thesis by blast
qed

text \<open>The claim C8 as stated fails on a Reverse segment: the second run labels it Drive.\<close>

theorem TrajectoryPartition_rerun_reverse_relabelled:
  "\<exists>ps out out'. partition_segments all_reverse = Inr (Inr ps)
     \<and> length (trajectory_partition ps) = 1
     \<and> TrajectoryPartition all_reverse (sample_vehicle (Finite 0) (Finite 0)) default_ADCTrajectory
          = Inr (Status_OK, out)
     \<and> gear out = Some GEAR_REVERSE
     \<and> TrajectoryPartition (trajectory_point out) (sample_vehicle (Finite 0) (Finite 0))
          default_ADCTrajectory = Inr (Status_OK, out')
     \<and> gear out' = Some GEAR_DRIVE
     \<and> gear out' \<noteq> gear out"
  by (simp add: TrajectoryPartition_def partition_eval closest_eval all_reverse_def
      default_ADCTrajectory_def)

subsection \<open>The partitioner returns unless the scan leaves the trajectory\<close>

text \<open>Once the tie-breaker is set the scan keeps it, and the counter moves by at most one
  for each sample still to be counted.\<close>

lemma initial_gear_scan_bounds:
  "initial_gear_scan pts i j d n = Inr (d', n') \<Longrightarrow> i \<le> initial_gear_check_horizon \<Longrightarrow>
   (n \<noteq> 0 \<longrightarrow> n' = n) \<and> \<bar>d' - d\<bar> \<le> int (initial_gear_check_horizon - i)"
proof (induction pts i j d n rule: initial_gear_scan.induct)
  case (1 pts i j d n)
  show ?case
  proof (cases "i = initial_gear_check_horizon")
    case True
    with "1.prems" show ?thesis
      by (simp add: initial_gear_scan.simps)
  next
    case False
    note ne = this
    then have lt: "i + 1 \<le> initial_gear_check_horizon" using "1.prems" by simp
    show ?thesis
    proof (cases "length pts \<le> j")
      case True
      with ne "1.prems" show ?thesis by (simp add: initial_gear_scan.simps)
    next
      case False
      note inr = this
      consider (pos) "tp_v (pts ! j) > kepsilon"
        | (neg) "\<not> tp_v (pts ! j) > kepsilon" "tp_v (pts ! j) < - kepsilon"
        | (amb) "\<not> tp_v (pts ! j) > kepsilon" "\<not> tp_v (pts ! j) < - kepsilon"
        by blast
      then show ?thesis
      proof cases
        case pos
        with ne inr "1.prems" have
          "initial_gear_scan pts (i + 1) (j + 1) (d + 1) (if n = 0 then n + 1 else n) = Inr (d', n')"
          by (simp add: initial_gear_scan.simps [of pts i j])
        from "1.IH"(1) [OF ne inr pos this lt] lt show ?thesis
          by (auto split: if_splits)
      next
        case neg
        with ne inr "1.prems" have
          "initial_gear_scan pts (i + 1) (j + 1) (d - 1) (if n = 0 then n - 1 else n) = Inr (d', n')"
          by (simp add: initial_gear_scan.simps [of pts i j])
        from "1.IH"(2) [OF ne inr neg this lt] lt show ?thesis
          by (auto split: if_splits)
      next
        case amb
        with ne inr "1.prems" have
          "initial_gear_scan pts i (j + 1) d n = Inr (d', n')"
          by (simp add: initial_gear_scan.simps [of pts i j])
        from "1.IH"(3) [OF ne inr amb this "1.prems"(2)] show ?thesis .
      qed
    qed
  qed
qed

text \<open>The first gear agrees with the first sample: the loop does not change gear at
  index 0, so the first segment is not empty.\<close>

lemma initial_gear_first_sample:
  assumes scan: "initial_gear_scan pts 0 0 0 0 = Inr (d, n)" and g: "initial_gear d n = Inr g"
    and len: "pts \<noteq> []"
  shows "\<not> crossing g (pts ! 0)"
proof
  assume c: "crossing g (pts ! 0)"
  have j: "\<not> length pts \<le> 0" using len by simp
  show False
  proof (cases g)
    case GEAR_DRIVE
    with c have v: "tp_v (pts ! 0) < - kepsilon" by (simp add: crossing_def)
    with kepsilon_pos have nv: "\<not> tp_v (pts ! 0) > kepsilon" by simp
    from scan v nv j have "initial_gear_scan pts 1 1 (- 1) (- 1) = Inr (d, n)"
      by (simp add: initial_gear_scan.simps [of pts 0 0] initial_gear_check_horizon_def)
    from initial_gear_scan_bounds [OF this] have "n = - 1" "d \<le> 1"
      by (auto simp add: initial_gear_check_horizon_def)
    with g GEAR_DRIVE show False by (auto simp add: initial_gear_def split: if_splits)
  next
    case GEAR_REVERSE
    with c have v: "tp_v (pts ! 0) > kepsilon" by (simp add: crossing_def)
    from scan v j have "initial_gear_scan pts 1 1 1 1 = Inr (d, n)"
      by (simp add: initial_gear_scan.simps [of pts 0 0] initial_gear_check_horizon_def)
    from initial_gear_scan_bounds [OF this] have "n = 1" "- 1 \<le> d"
      by (auto simp add: initial_gear_check_horizon_def)
    with g GEAR_REVERSE show False by (auto simp add: initial_gear_def split: if_splits)
  qed
qed

lemma partition_step_first_segment:
  assumes "trajectory_partition st \<noteq> []" "hd (trajectory_partition st) \<noteq> []"
  shows "trajectory_partition (partition_step pts i st) \<noteq> []
     \<and> hd (trajectory_partition (partition_step pts i st)) \<noteq> []"
  using assms
  by (cases "trajectory_partition st" rule: rev_cases)
     (auto simp add: partition_step_def Let_def add_trajectory_def add_trajectory_point_def
       hd_append butlast_append)

lemma partition_fold_first_segment:
  assumes "\<not> crossing g (pts ! 0)"
  shows "trajectory_partition (fold (partition_step pts) [0..<Suc n] (partition_init g)) \<noteq> []
     \<and> hd (trajectory_partition (fold (partition_step pts) [0..<Suc n] (partition_init g))) \<noteq> []"
proof (induction n)
  case 0
  from partition_fold_no_crossing [of 1 g pts] assms show ?case by auto
next
  case (Suc n)
  from partition_step_first_segment [of "fold (partition_step pts) [0..<Suc n] (partition_init g)" pts "Suc n"]
    Suc
  show ?case by (simp del: upt_Suc add: fold_upt_Suc [of _ "Suc n"])
qed

lemma emit_closest_returns:
  assumes "length (trajectory_partition ps) = length (gear_positions ps)"
    and "trajectory_partition ps \<noteq> []" and "hd (trajectory_partition ps) \<noteq> []"
  shows "\<exists>out. emit_closest vs ps trajectory_pb = Inr out"
proof -
  let ?c = "choose_closest vs ps"
  let ?segs = "trajectory_partition ps"
  have c: "?c = fold (closest_trajectory_step vs ?segs) [0..<length ?segs] closest_init"
    by (simp add: choose_closest_def assms(1))
  from closest_trajectory_fold [of "length ?segs" ?segs vs, folded c]
  have "?c = closest_init
     \<or> current_trajectory_index ?c < length ?segs
       \<and> closest_trajectory_point_index ?c < length (?segs ! current_trajectory_index ?c)"
    by blast
  moreover have "0 < length ?segs" "0 < length (?segs ! 0)"
    using assms(2,3) by (simp_all add: hd_conv_nth)
  ultimately have "current_trajectory_index ?c < length ?segs
       \<and> closest_trajectory_point_index ?c < length (?segs ! current_trajectory_index ?c)"
    by (auto simp add: closest_init_def)
  then show ?thesis
    using assms(1) by (simp add: emit_closest_def Let_def)
qed

lemma TrajectoryPartition_fault:
  assumes "TrajectoryPartition pts vs trajectory_pb = Inl f"
  shows "f = OutOfRange \<and> initial_gear_check_horizon \<le> length pts
     \<and> initial_gear_scan pts 0 0 0 0 = Inl OutOfRange"
proof (cases "partition_segments pts")
  case (Inl f')
  then have "initial_gear_check_horizon \<le> length pts" "initial_gear_scan pts 0 0 0 0 = Inl f'"
    by (auto simp add: partition_segments_def split: if_splits sum.splits prod.splits)
  moreover have "f' = f" using assms Inl by (simp add: TrajectoryPartition_def)
  moreover have "f' = OutOfRange"
  proof (cases f')
    case NonTermination
    have "initial_gear_scan pts i j d n \<noteq> Inl NonTermination" for i j d n
      by (induction pts i j d n rule: initial_gear_scan.induct)
         (subst initial_gear_scan.simps, simp)
    with \<open>initial_gear_scan pts 0 0 0 0 = Inl f'\<close> NonTermination show ?thesis by simp
  qed simp
  ultimately show ?thesis by simp
next
  case (Inr r)
  show ?thesis
  proof (cases r)
    case (Inl e)
    with Inr assms show ?thesis by (simp add: TrajectoryPartition_def)
  next
    case (Inr ps)
    with \<open>partition_segments pts = Inr r\<close> have seg: "partition_segments pts = Inr (Inr ps)" by simp
    from partition_segments_Inr [OF seg] obtain d n g where
      scan: "initial_gear_scan pts 0 0 0 0 = Inr (d, n)" and gear: "initial_gear d n = Inr g"
      and ps: "ps = partition_points pts g" and len: "initial_gear_check_horizon \<le> length pts"
      by blast
    from len have ne: "pts \<noteq> []" by (auto simp add: initial_gear_check_horizon_def)
    then obtain m where m: "length pts = Suc m" by (cases pts) auto
    from partition_fold_first_segment [OF initial_gear_first_sample [OF scan gear ne], of m]
    have "trajectory_partition ps \<noteq> []" "hd (trajectory_partition ps) \<noteq> []"
      by (simp_all add: ps partition_points_def m)
    from emit_closest_returns [OF partition_segments_lengths [OF seg] this, of vs trajectory_pb]
    obtain out where "emit_closest vs ps trajectory_pb = Inr out" ..
    with seg assms show ?thesis by (simp add: TrajectoryPartition_def)
  qed
qed

section \<open>Properties of the collision checker\<close>

lemma collision_free_from_cases:
  "collision_free_from H vp env pts i =
     (if env = [] then Inr True
      else if \<exists>k. i \<le> k \<and> k < length pts \<and> k < length env
                \<and> list_ex (H (ego_box vp (pts ! k))) (env ! k) then Inr False
      else if i < length pts \<and> length env < length pts then Inl OutOfRange
      else Inr True)"
proof (induction H vp env pts i rule: collision_free_from.induct)
  case (1 H vp env pts i)
  show ?case
  proof (cases "i < length pts")
    case False
    then show ?thesis
      by (auto simp add: collision_free_from.simps [of H vp env pts i])
  next
    case True
    note i = this
    show ?thesis
    proof (cases "length env \<noteq> 0")
      case False
      have "collision_free_from H vp env pts i = collision_free_from H vp env pts (i + 1)"
        using i False by (subst collision_free_from.simps) simp
      with "1.IH"(2) [OF i False] False show ?thesis by simp
    next
      case True
      note ne = this
      show ?thesis
      proof (cases "length env \<le> i")
        case True
        with i ne show ?thesis
          by (auto simp add: collision_free_from.simps [of H vp env pts i])
      next
        case False
        note inr = this
        show ?thesis
        proof (cases "list_ex (H (ego_box vp (pts ! i))) (env ! i)")
          case True
          have ex: "\<exists>k. i \<le> k \<and> k < length pts \<and> k < length env
                \<and> list_ex (H (ego_box vp (pts ! k))) (env ! k)"
            using i inr True by (intro exI [of _ i]) simp
          have "collision_free_from H vp env pts i = Inr False"
            using i ne inr True by (subst collision_free_from.simps) simp
          with ne ex show ?thesis by auto
        next
          case False
          have split: "(\<exists>k. i \<le> k \<and> k < length pts \<and> k < length env
                \<and> list_ex (H (ego_box vp (pts ! k))) (env ! k))
              = (\<exists>k. i + 1 \<le> k \<and> k < length pts \<and> k < length env
                \<and> list_ex (H (ego_box vp (pts ! k))) (env ! k))"
            using False by (metis Suc_eq_plus1 Suc_leI le_neq_implies_less Suc_leD)
          have "collision_free_from H vp env pts i = collision_free_from H vp env pts (i + 1)"
            using i ne inr False by (simp add: collision_free_from.simps [of H vp env pts i])
          also note "1.IH"(1) [OF i ne inr False]
          finally show ?thesis
            using i ne inr unfolding split by auto
        qed
      qed
    qed
  qed
qed

lemma IsCollisionFreeTrajectory_cases:
  "IsCollisionFreeTrajectory H vp env pb =
     (if env = [] then Inr True
      else if \<exists>k. k < length (trajectory_point pb) \<and> k < length env
                \<and> list_ex (H (ego_box vp (trajectory_point pb ! k))) (env ! k) then Inr False
      else if length env < length (trajectory_point pb) then Inl OutOfRange
      else Inr True)"
  by (auto simp add: IsCollisionFreeTrajectory_def collision_free_from_cases)

lemma BuildPredictedEnvironment_one_step:
  "BuildPredictedEnvironment 1 1 [] = Some [Nil]"
  by (simp add: BuildPredictedEnvironment_def BuildPredictedEnvironment_loop.simps)

text \<open>With a positive resolution the builder returns.\<close>

lemma BuildPredictedEnvironment_loop_returns:
  "0 < time_resolution \<Longrightarrow> time_length - t \<le> real n * time_resolution \<Longrightarrow>
   \<exists>env'. BuildPredictedEnvironment_loop time_length time_resolution obstacles t env = Some env'"
proof (induction n arbitrary: t env)
  case 0
  then have "\<not> t < time_length" by simp
  then show ?case by (simp add: BuildPredictedEnvironment_loop.simps)
next
  case (Suc n)
  show ?case
  proof (cases "t < time_length")
    case False
    then show ?thesis by (simp add: BuildPredictedEnvironment_loop.simps)
  next
    case True
    have "time_length - (t + time_resolution) \<le> real n * time_resolution"
      using Suc.prems(2) by (simp add: algebra_simps)
    from Suc.IH [OF Suc.prems(1) this] True show ?thesis
      by (subst BuildPredictedEnvironment_loop.simps) simp
  qed
qed

lemma BuildPredictedEnvironment_returns:
  assumes "0 < time_resolution"
  shows "\<exists>env. BuildPredictedEnvironment time_length time_resolution obstacles = Some env"
proof -
  obtain n where "(time_length - 0) / time_resolution \<le> real n"
    using real_arch_simple by blast
  with assms have "time_length - 0 \<le> real n * time_resolution"
    by (simp add: pos_divide_le_eq)
  from BuildPredictedEnvironment_loop_returns [OF assms this] show ?thesis
    by (simp add: BuildPredictedEnvironment_def)
qed

text \<open>
  C2. The claim: the ego box at sample \<open>i\<close> is tested against snapshot \<open>i\<close> only if a
  snapshot exists for that index. The code tests whether any snapshot exists
  (\<^verbatim>\<open>predicted_bounding_rectangles_.size() != 0\<close>) and then reads snapshot \<open>i\<close>: when the
  trajectory has more samples than the environment has snapshots and no earlier sample
  collides, it reads past the end of the environment. (With an empty environment it
  returns collision-free, and with a snapshot for every sample it reports a collision
  exactly when some sample overlaps a box of its own snapshot: lemma
  \<open>IsCollisionFreeTrajectory_cases\<close>.)
\<close>

theorem IsCollisionFreeTrajectory_missing_snapshot:
  assumes "env \<noteq> []"
    and "length env < length (trajectory_point pb)"
    and "\<forall>k<length env. \<not> list_ex (H (ego_box vp (trajectory_point pb ! k))) (env ! k)"
  shows "IsCollisionFreeTrajectory H vp env pb = Inl OutOfRange"
  using assms by (auto simp add: IsCollisionFreeTrajectory_cases)

theorem IsCollisionFreeTrajectory_missing_snapshot_witness:
  "BuildPredictedEnvironment 1 1 [] = Some [Nil]
   \<and> length [Nil :: Box2d list] < length (trajectory_point (default_ADCTrajectory\<lparr>trajectory_point := all_reverse\<rparr>))
   \<and> IsCollisionFreeTrajectory (\<lambda>a b. True) \<lparr>vp_length = 4, vp_width = 2, back_edge_to_center = 1\<rparr>
        [Nil] (default_ADCTrajectory\<lparr>trajectory_point := all_reverse\<rparr>) = Inl OutOfRange"
proof -
  let ?pb = "default_ADCTrajectory\<lparr>trajectory_point := all_reverse\<rparr>"
  have h1: "[Nil :: Box2d list] \<noteq> []" by simp
  have h2: "length [Nil :: Box2d list] < length (trajectory_point ?pb)"
    by (simp add: all_reverse_def)
  have h3: "\<forall>k<length [Nil :: Box2d list]. \<not> list_ex ((\<lambda>a b. True)
      (ego_box \<lparr>vp_length = 4, vp_width = 2, back_edge_to_center = 1\<rparr> (trajectory_point ?pb ! k)))
      ([Nil] ! k)"
    by simp
  from IsCollisionFreeTrajectory_missing_snapshot [OF h1 h2 h3] h2 BuildPredictedEnvironment_one_step
  show ?thesis by simp
qed

section \<open>Properties of the cycle\<close>

subsection \<open>\<^verbatim>\<open>FillPlanningPb\<close>\<close>

lemma mutable_header_Some [simp]: "header t = Some h \<Longrightarrow> mutable_header t = h"
  by (simp add: mutable_header_def)

lemma fill_header_header:
  "\<exists>h. header (fill_header lv ts t) = Some h \<and> timestamp_sec h = Some ts
     \<and> status h = status (mutable_header t)
     \<and> sensor_timestamps h =
         (if prediction_obstacles_header lv = None then (Some 0, Some 0, Some 0)
          else sensor_timestamps (mutable_header t))"
  by (simp add: fill_header_def Let_def sensor_timestamps_def get_lidar_timestamp_def
      get_camera_timestamp_def get_radar_timestamp_def)

lemma fill_header_other [simp]:
  "trajectory_point (fill_header lv ts t) = trajectory_point t"
  "gear (fill_header lv ts t) = gear t"
  "estop (fill_header lv ts t) = estop t"
  by (simp_all add: fill_header_def Let_def)

lemma fill_header_idem [simp]:
  "fill_header lv ts (fill_header lv ts t) = fill_header lv ts t"
  by (simp add: fill_header_def Let_def)

lemma fill_header_points_update [simp]:
  "fill_header lv ts (t\<lparr>trajectory_point := ps\<rparr>) = (fill_header lv ts t)\<lparr>trajectory_point := ps\<rparr>"
  by (simp add: fill_header_def Let_def mutable_header_def)

lemma FillPlanningPb_header [simp]:
  "header (FillPlanningPb fl co lv lp ts now t) = header (fill_header lv ts t)"
  by (simp add: FillPlanningPb_def Let_def SetFallbackTrajectory_def)

lemma FillPlanningPb_points:
  "trajectory_point (FillPlanningPb fl co lv lp ts now t)
     = map (shift_relative_time (ts - now)) (points_to_publish fl co lv lp ts t)"
  by (simp add: FillPlanningPb_def Let_def SetFallbackTrajectory_def points_to_publish_def)

lemma fill_header_FillPlanningPb:
  "fill_header lv ts (FillPlanningPb fl co lv lp ts now t) = FillPlanningPb fl co lv lp ts now t"
  by (simp add: FillPlanningPb_def Let_def SetFallbackTrajectory_def)

lemma update_points_same: "trajectory_point t = ps \<Longrightarrow> t\<lparr>trajectory_point := ps\<rparr> = t"
  by auto

text \<open>A second \<^verbatim>\<open>FillPlanningPb\<close> finds the header filled and the fallback decided: it only
  corrects the times again.\<close>

lemma points_to_publish_FillPlanningPb:
  "points_to_publish fl co lv lp ts (FillPlanningPb fl co lv lp ts now t)
     = trajectory_point (FillPlanningPb fl co lv lp ts now t)"
proof (cases "use_planning_fallback fl \<and> trajectory_point (FillPlanningPb fl co lv lp ts now t) = []")
  case False
  then show ?thesis by (auto simp add: points_to_publish_def)
next
  case True
  then have e: "points_to_publish fl co lv lp ts t = []"
    by (simp add: FillPlanningPb_points)
  have pe: "trajectory_point t = []"
  proof (rule ccontr)
    assume "trajectory_point t \<noteq> []"
    then show False using e by (simp add: points_to_publish_def)
  qed
  with e True have fb: "fallback_points co lp (fill_header lv ts t) = []"
    by (simp add: points_to_publish_def)
  have "FillPlanningPb fl co lv lp ts now t = fill_header lv ts t"
    using True pe fb
    by (simp add: FillPlanningPb_def Let_def SetFallbackTrajectory_def update_points_same)
  then show ?thesis
    using True pe fb by (simp add: points_to_publish_def)
qed

lemma FillPlanningPb_twice_points:
  "trajectory_point (FillPlanningPb fl co lv lp ts now2 (FillPlanningPb fl co lv lp ts now1 t))
     = map (shift_relative_time (ts - now2))
         (map (shift_relative_time (ts - now1)) (points_to_publish fl co lv lp ts t))"
  by (simp only: FillPlanningPb_points [of fl co lv lp ts now2] points_to_publish_FillPlanningPb
      FillPlanningPb_points [of fl co lv lp ts now1 t])

lemma FillPlanningPb_sensor_timestamps:
  "\<exists>h. header (FillPlanningPb fl co lv lp ts now t) = Some h \<and> timestamp_sec h = Some ts
     \<and> status h = status (mutable_header t)
     \<and> sensor_timestamps h =
         (if prediction_obstacles_header lv = None then (Some 0, Some 0, Some 0)
          else sensor_timestamps (mutable_header t))"
  using fill_header_header [of lv ts t] by simp

subsection \<open>The paths of \<^verbatim>\<open>RunOnce\<close>\<close>

lemma update_routing_fields [simp]:
  "seq_num (update_routing lv s) = seq_num s"
  "last_publishable_trajectory (update_routing lv s) = last_publishable_trajectory s"
  "frame_history (update_routing lv s) = frame_history s"
  by (simp_all add: update_routing_def)

lemma cycle_stitching_trajectory_update_routing [simp]:
  "cycle_stitching_trajectory fl co (update_routing lv s) = cycle_stitching_trajectory fl co s"
  by (simp add: cycle_stitching_trajectory_def)

lemma InitFrame_SequenceNum [simp]: "SequenceNum (snd (InitFrame co n)) = n"
  by (simp add: InitFrame_def Let_def split: prod.splits)

lemma archive_fields [simp]:
  "seq_num (archive frame pb s) = seq_num s"
  "last_publishable_trajectory (archive frame pb s) = last_publishable_trajectory s"
  "frame_history (archive frame pb s)
     = frame_history s @ [(SequenceNum frame, frame\<lparr>frame_trajectory := pb\<rparr>)]"
  by (simp_all add: archive_def)

lemma RunOnce_invalid:
  assumes "\<not> IsVehicleStateValid (cycle_vehicle_state fl co)"
  shows "RunOnce fl co lv s trajectory_pb
     = Inr (s, FillPlanningPb fl co lv (last_publishable_trajectory s) (clock co 0) (clock co 1)
                 (save_status (Update co) trajectory_pb))"
  using assms by (simp add: RunOnce_def Let_def)

lemma RunOnce_no_stitching:
  assumes "IsVehicleStateValid (cycle_vehicle_state fl co)"
    and "cycle_stitching_trajectory fl co s = []"
  shows "RunOnce fl co lv s trajectory_pb = Inl OutOfRange"
  using assms by (simp add: RunOnce_def Let_def)

text \<open>The members when the frame of the cycle is made: the routing is updated and the
  counter is incremented.\<close>

lemma RunOnce_init_frame_failure:
  assumes "IsVehicleStateValid (cycle_vehicle_state fl co)"
    and "cycle_stitching_trajectory fl co s \<noteq> []"
    and "\<not> ok (fst (InitFrame co (word_of_nat (seq_num s))))"
  shows "RunOnce fl co lv s trajectory_pb
     = (let s2 = (update_routing lv s)\<lparr>seq_num := seq_num s + 1\<rparr>;
            pb2 = init_frame_failure fl co lv s2 (fst (InitFrame co (word_of_nat (seq_num s))))
                    (trajectory_pb\<lparr>init_frame_time_ms := Some (clock co 1 - clock co 0)\<rparr>)
        in Inr (archive (snd (InitFrame co (word_of_nat (seq_num s)))) pb2 s2, pb2))"
  using assms by (simp add: RunOnce_def Let_def case_prod_beta)

lemma RunOnce_plan:
  assumes "IsVehicleStateValid (cycle_vehicle_state fl co)"
    and "cycle_stitching_trajectory fl co s \<noteq> []"
    and "ok (fst (InitFrame co (word_of_nat (seq_num s))))"
  shows "RunOnce fl co lv s trajectory_pb
     = (case Plan fl co (clock co 0) (cycle_stitching_trajectory fl co s)
               ((update_routing lv s)\<lparr>seq_num := seq_num s + 1\<rparr>)
               (snd (InitFrame co (word_of_nat (seq_num s))))
               (trajectory_pb\<lparr>init_frame_time_ms := Some (clock co 1 - clock co 0)\<rparr>) of
          Inl f \<Rightarrow> Inl f
        | Inr r \<Rightarrow> Inr (after_plan fl co lv (cycle_stitching_trajectory fl co s) r))"
  using assms by (simp add: RunOnce_def Let_def case_prod_beta split: sum.splits)

subsection \<open>\<^verbatim>\<open>Plan\<close>\<close>

lemma TrajectoryPartition_header:
  assumes "TrajectoryPartition pts vs pb = Inr (st, out)"
  shows "header out = header pb"
  using assms
  by (auto simp add: TrajectoryPartition_def emit_closest_def Let_def
      split: sum.splits if_splits)

lemma Plan_planner_failure:
  assumes "fst (planner_Plan co (last stitching) frame) \<noteq> Status_OK"
  shows "Plan fl co ts stitching s frame pb
     = Inr (fst (planner_Plan co (last stitching) frame), s,
            (snd (planner_Plan co (last stitching) frame))\<lparr>SequenceNum := SequenceNum frame\<rparr>, pb)"
  using assms by (simp add: Plan_def Let_def case_prod_beta)

lemma Plan_result:
  assumes "Plan fl co ts stitching s frame pb = Inr (st, s', frame', pb')"
  shows "seq_num s' = seq_num s \<and> frame_history s' = frame_history s
     \<and> SequenceNum frame' = SequenceNum frame \<and> header pb' = header pb
     \<and> last_publishable_trajectory s' =
         (if fst (planner_Plan co (last stitching) frame) \<noteq> Status_OK
          then last_publishable_trajectory s
          else Some (new_publishable_trajectory fl ts stitching
                 (frame_trajectory (snd (planner_Plan co (last stitching) frame)))))"
proof (cases "fst (planner_Plan co (last stitching) frame) \<noteq> Status_OK")
  case True
  from assms Plan_planner_failure [OF True, of fl ts s pb] True show ?thesis by auto
next
  case False
  then have okp: "fst (planner_Plan co (last stitching) frame) = Status_OK" by simp
  let ?lp = "new_publishable_trajectory fl ts stitching
                 (frame_trajectory (snd (planner_Plan co (last stitching) frame)))"
  obtain pst pb1 where tp: "TrajectoryPartition (trajectory_points ?lp) (vehicle_state co) pb = Inr (pst, pb1)"
    using assms okp
    by (cases "TrajectoryPartition (trajectory_points ?lp) (vehicle_state co) pb")
       (auto simp add: Plan_def Let_def case_prod_beta)
  have h: "header pb1 = header pb" using TrajectoryPartition_header [OF tp] .
  from assms okp tp h show ?thesis
    by (auto simp add: Plan_def Let_def case_prod_beta split: if_splits option.splits sum.splits)
qed

lemma save_status_sensor_timestamps [simp]:
  "sensor_timestamps (mutable_header (save_status st t)) = sensor_timestamps (mutable_header t)"
  by (simp add: save_status_def sensor_timestamps_def)

lemma after_plan_result:
  assumes "after_plan fl co lv stitching (st, s, frame, pb) = (s', out)"
  shows "seq_num s' = seq_num s \<and> last_publishable_trajectory s' = last_publishable_trajectory s
     \<and> frame_history s' = frame_history s @ [(SequenceNum frame, frame\<lparr>frame_trajectory := out\<rparr>)]
     \<and> (\<exists>pb6. out = FillPlanningPb fl co lv (last_publishable_trajectory s) (clock co 0) (clock co 3) pb6
           \<and> sensor_timestamps (mutable_header pb6) = sensor_timestamps (mutable_header pb))"
proof -
  let ?pb4 = "pb\<lparr>total_time_ms := Some ((clock co 2 - clock co 0) * 1000)\<rparr>"
  let ?pb5 = "if \<not> ok st
                   then (let pb' = save_status st ?pb4
                         in if publish_estop fl then set_estop st pb' else pb')
                   else ?pb4"
  let ?pb6 = "?pb5\<lparr>is_replan := Some (length stitching = 1)\<rparr>"
  have out: "out = FillPlanningPb fl co lv (last_publishable_trajectory s) (clock co 0) (clock co 3) ?pb6"
    and s': "s' = archive frame out s"
    using assms by (auto simp add: after_plan_def Let_def)
  have "sensor_timestamps (mutable_header ?pb6) = sensor_timestamps (mutable_header pb)"
    by (simp add: mutable_header_def save_status_def set_estop_def sensor_timestamps_def Let_def)
  with out s' show ?thesis by auto
qed

subsection \<open>What a cycle that returns has done\<close>

lemma RunOnce_Inr_cases:
  assumes "RunOnce fl co lv s trajectory_pb = Inr (s', out)"
  obtains
    (invalid) "\<not> IsVehicleStateValid (cycle_vehicle_state fl co)" "s' = s"
      "out = FillPlanningPb fl co lv (last_publishable_trajectory s) (clock co 0) (clock co 1)
               (save_status (Update co) trajectory_pb)"
  | (init_failure) "IsVehicleStateValid (cycle_vehicle_state fl co)"
      "cycle_stitching_trajectory fl co s \<noteq> []"
      "\<not> ok (fst (InitFrame co (word_of_nat (seq_num s))))"
      "s' = archive (snd (InitFrame co (word_of_nat (seq_num s)))) out
              ((update_routing lv s)\<lparr>seq_num := seq_num s + 1\<rparr>)"
      "out = init_frame_failure fl co lv ((update_routing lv s)\<lparr>seq_num := seq_num s + 1\<rparr>)
               (fst (InitFrame co (word_of_nat (seq_num s))))
               (trajectory_pb\<lparr>init_frame_time_ms := Some (clock co 1 - clock co 0)\<rparr>)"
  | (planned) st s3 frame' pb3 where "IsVehicleStateValid (cycle_vehicle_state fl co)"
      "cycle_stitching_trajectory fl co s \<noteq> []"
      "ok (fst (InitFrame co (word_of_nat (seq_num s))))"
      "Plan fl co (clock co 0) (cycle_stitching_trajectory fl co s)
               ((update_routing lv s)\<lparr>seq_num := seq_num s + 1\<rparr>)
               (snd (InitFrame co (word_of_nat (seq_num s))))
               (trajectory_pb\<lparr>init_frame_time_ms := Some (clock co 1 - clock co 0)\<rparr>)
         = Inr (st, s3, frame', pb3)"
      "after_plan fl co lv (cycle_stitching_trajectory fl co s) (st, s3, frame', pb3) = (s', out)"
proof (cases "IsVehicleStateValid (cycle_vehicle_state fl co)")
  case False
  with assms RunOnce_invalid [OF False, of lv s trajectory_pb] show ?thesis
    by (intro invalid) auto
next
  case True
  note valid = this
  show ?thesis
  proof (cases "cycle_stitching_trajectory fl co s = []")
    case True
    with assms RunOnce_no_stitching [OF valid True, of lv trajectory_pb] show ?thesis by simp
  next
    case False
    note stitch = this
    show ?thesis
    proof (cases "ok (fst (InitFrame co (word_of_nat (seq_num s))))")
      case False
      from assms RunOnce_init_frame_failure [OF valid stitch False, of lv trajectory_pb]
      show ?thesis
        by (intro init_failure [OF valid stitch False]) (auto simp add: Let_def)
    next
      case True
      note R = RunOnce_plan [OF valid stitch True, of lv trajectory_pb]
      show ?thesis
      proof (cases "Plan fl co (clock co 0) (cycle_stitching_trajectory fl co s)
               ((update_routing lv s)\<lparr>seq_num := seq_num s + 1\<rparr>)
               (snd (InitFrame co (word_of_nat (seq_num s))))
               (trajectory_pb\<lparr>init_frame_time_ms := Some (clock co 1 - clock co 0)\<rparr>)")
        case (Inl f)
        with assms R show ?thesis by simp
      next
        case (Inr r)
        obtain st s3 frame' pb3 where r: "r = (st, s3, frame', pb3)" by (cases r)
        from assms R Inr r
        have "after_plan fl co lv (cycle_stitching_trajectory fl co s) (st, s3, frame', pb3) = (s', out)"
          by simp
        with Inr r show ?thesis
          by (intro planned [OF valid stitch True]) auto
      qed
    qed
  qed
qed

lemmas cycle_eval =
  RunOnce_def cycle_vehicle_state_def IsVehicleStateValid_def update_routing_def
  IsDifferentRouting_def cycle_stitching_trajectory_def InitFrame_def Plan_def
  after_plan_def init_frame_failure_def archive_def FillPlanningPb_def fill_header_def
  SetFallbackTrajectory_def save_status_def set_estop_def mutable_header_def
  default_Header_def default_ADCTrajectory_def new_publishable_trajectory_def
  stitched_frame_trajectory_def get_lidar_timestamp_def get_camera_timestamp_def
  get_radar_timestamp_def Status_OK_def
  sample_flags_def sample_collaborators_def sample_local_view_def sample_state_def
  sample_obstacle_def

subsection \<open>The last published trajectory\<close>

text \<open>
  C1 (as amended). The claim: the last published trajectory is replaced only when Plan,
  TrajectoryPartition and the collision check all succeed; a cycle in which any stage
  fails leaves it as it was. What holds on the code: \<^verbatim>\<open>Plan\<close> stores the new trajectory as
  soon as the planner strategy has succeeded, before the partition (which reads it) and
  the collision check. A cycle that returns has replaced the last published trajectory
  exactly when the vehicle state was valid, the frame was initialised and the planner
  strategy succeeded; otherwise the trajectory has the value it had at the start.
\<close>

theorem RunOnce_last_publishable_trajectory:
  assumes "RunOnce fl co lv s trajectory_pb = Inr (s', out)"
  shows "last_publishable_trajectory s' =
     (if IsVehicleStateValid (cycle_vehicle_state fl co)
         \<and> ok (fst (InitFrame co (word_of_nat (seq_num s))))
         \<and> fst (planner_Plan co (last (cycle_stitching_trajectory fl co s))
                  (snd (InitFrame co (word_of_nat (seq_num s))))) = Status_OK
      then Some (new_publishable_trajectory fl (clock co 0) (cycle_stitching_trajectory fl co s)
             (frame_trajectory (snd (planner_Plan co (last (cycle_stitching_trajectory fl co s))
                  (snd (InitFrame co (word_of_nat (seq_num s))))))))
      else last_publishable_trajectory s)"
  using assms
proof (cases rule: RunOnce_Inr_cases)
  case invalid
  then show ?thesis by simp
next
  case init_failure
  then show ?thesis by simp
next
  case (planned st s3 frame' pb3)
  from Plan_result [OF planned(4)] after_plan_result [OF planned(5)] planned(1,3)
  show ?thesis by simp
qed

theorem RunOnce_last_publishable_trajectory_witness:
  "\<exists>s' out. RunOnce (sample_flags False False)
       (sample_collaborators (sample_vehicle (Finite 0) (Finite 0)) Status_OK all_drive False)
       sample_local_view sample_state default_ADCTrajectory = Inr (s', out)
     \<and> last_publishable_trajectory s' = Some \<lparr>header_time = 0, trajectory_points = all_drive\<rparr>"
proof -
  let ?fl = "sample_flags False False"
  let ?co = "sample_collaborators (sample_vehicle (Finite 0) (Finite 0)) Status_OK all_drive False"
  have "\<exists>s' out. RunOnce ?fl ?co sample_local_view sample_state default_ADCTrajectory = Inr (s', out)"
    by (simp add: cycle_eval TrajectoryPartition_def partition_eval closest_eval
      all_drive_def BuildPredictedEnvironment_def BuildPredictedEnvironment_loop.simps
      IsCollisionFreeTrajectory_def collision_free_from.simps ego_box_def Shift_def)
  then obtain s' out where
    run: "RunOnce ?fl ?co sample_local_view sample_state default_ADCTrajectory = Inr (s', out)"
    by blast
  from RunOnce_last_publishable_trajectory [OF run]
  have "last_publishable_trajectory s' = Some \<lparr>header_time = 0, trajectory_points = all_drive\<rparr>"
    by (simp add: cycle_eval sample_vehicle_def all_drive_def sample_point_def)
  with run show ?thesis by blast
qed

text \<open>The claim C1 as stated fails: a cycle in which the partition rejects the trajectory
  (one point) and a cycle in which the collision check fails both end with a new last
  published trajectory.\<close>

theorem RunOnce_failed_cycle_replaces_last_trajectory:
  "(\<exists>s' out h. RunOnce (sample_flags False False)
       (sample_collaborators (sample_vehicle (Finite 0) (Finite 0)) Status_OK [sample_point 0 0 1 0] False)
       sample_local_view sample_state default_ADCTrajectory = Inr (s', out)
     \<and> header out = Some h
     \<and> status h = Some (Status PLANNING_ERROR ''Invalid trajectory length!'')
     \<and> last_publishable_trajectory sample_state = None
     \<and> last_publishable_trajectory s'
         = Some \<lparr>header_time = 0, trajectory_points = [sample_point 0 0 1 0]\<rparr>)
   \<and> (\<exists>s' out h. RunOnce (sample_flags False False)
       (sample_collaborators (sample_vehicle (Finite 0) (Finite 0)) Status_OK all_drive True)
       sample_local_view sample_state default_ADCTrajectory = Inr (s', out)
     \<and> header out = Some h
     \<and> status h = Some (Status PLANNING_ERROR ''Collision Check failed'')
     \<and> last_publishable_trajectory sample_state = None
     \<and> last_publishable_trajectory s'
         = Some \<lparr>header_time = 0, trajectory_points = all_drive\<rparr>)"
  by (simp add: cycle_eval TrajectoryPartition_def partition_eval closest_eval
     all_drive_def BuildPredictedEnvironment_def BuildPredictedEnvironment_loop.simps
     IsCollisionFreeTrajectory_def collision_free_from.simps ego_box_def Shift_def)

subsection \<open>Archiving and the header\<close>

lemma init_frame_failure_header:
  "\<exists>h. header (init_frame_failure fl co lv s st pb) = Some h \<and> timestamp_sec h = Some (clock co 0)"
proof -
  have "\<exists>h. header (fill_header lv (clock co 0) t) = Some h \<and> timestamp_sec h = Some (clock co 0)"
    for t
    using fill_header_header [of lv "clock co 0" t] by blast
  then show ?thesis by (simp add: init_frame_failure_def Let_def)
qed

text \<open>
  C3 (as amended). The claim: every cycle, also one that fails the vehicle-state
  validation, ends by archiving a record under a strictly increasing sequence number and
  with the header of the output filled. What holds on the code: a cycle that returns has
  set the header's timestamp to the start of the cycle; if the vehicle state was valid it
  has incremented the counter and handed one frame, holding a copy of the output, to the
  history under the old counter value (truncated to 32 bits); if the vehicle state was
  invalid it has returned before a frame exists: nothing is archived and the counter
  stays. A cycle does not return only when the stitcher returns no point or \<^verbatim>\<open>Plan\<close> does
  not return.
\<close>

theorem RunOnce_archives:
  "case RunOnce fl co lv s trajectory_pb of
     Inl f \<Rightarrow>
       IsVehicleStateValid (cycle_vehicle_state fl co)
       \<and> (cycle_stitching_trajectory fl co s = []
          \<or> ok (fst (InitFrame co (word_of_nat (seq_num s))))
            \<and> Plan fl co (clock co 0) (cycle_stitching_trajectory fl co s)
                 ((update_routing lv s)\<lparr>seq_num := seq_num s + 1\<rparr>)
                 (snd (InitFrame co (word_of_nat (seq_num s))))
                 (trajectory_pb\<lparr>init_frame_time_ms := Some (clock co 1 - clock co 0)\<rparr>) = Inl f)
   | Inr (s', out) \<Rightarrow>
       (\<exists>h. header out = Some h \<and> timestamp_sec h = Some (clock co 0))
       \<and> (if IsVehicleStateValid (cycle_vehicle_state fl co)
          then seq_num s' = seq_num s + 1
             \<and> (\<exists>frame. frame_history s' = frame_history s @ [(word_of_nat (seq_num s), frame)]
                   \<and> frame_trajectory frame = out)
          else seq_num s' = seq_num s \<and> frame_history s' = frame_history s)"
proof (cases "RunOnce fl co lv s trajectory_pb")
  case (Inl f)
  have valid: "IsVehicleStateValid (cycle_vehicle_state fl co)"
    using Inl RunOnce_invalid [of fl co lv s trajectory_pb] by auto
  have "ok (fst (InitFrame co (word_of_nat (seq_num s))))
     \<and> Plan fl co (clock co 0) (cycle_stitching_trajectory fl co s)
                 ((update_routing lv s)\<lparr>seq_num := seq_num s + 1\<rparr>)
                 (snd (InitFrame co (word_of_nat (seq_num s))))
                 (trajectory_pb\<lparr>init_frame_time_ms := Some (clock co 1 - clock co 0)\<rparr>) = Inl f"
    if stitch: "cycle_stitching_trajectory fl co s \<noteq> []"
  proof -
    have okf: "ok (fst (InitFrame co (word_of_nat (seq_num s))))"
      using Inl RunOnce_init_frame_failure [OF valid stitch, of lv trajectory_pb]
      by (auto simp add: Let_def)
    from Inl RunOnce_plan [OF valid stitch okf, of lv trajectory_pb] okf show ?thesis
      by (auto split: sum.splits)
  qed
  with Inl valid show ?thesis by auto
next
  case (Inr r)
  obtain s' out where r: "r = (s', out)" by (cases r)
  from Inr r have run: "RunOnce fl co lv s trajectory_pb = Inr (s', out)" by simp
  have "(\<exists>h. header out = Some h \<and> timestamp_sec h = Some (clock co 0))
       \<and> (if IsVehicleStateValid (cycle_vehicle_state fl co)
          then seq_num s' = seq_num s + 1
             \<and> (\<exists>frame. frame_history s' = frame_history s @ [(word_of_nat (seq_num s), frame)]
                   \<and> frame_trajectory frame = out)
          else seq_num s' = seq_num s \<and> frame_history s' = frame_history s)"
    using run
  proof (cases rule: RunOnce_Inr_cases)
    case invalid
    with fill_header_header [of lv "clock co 0" "save_status (Update co) trajectory_pb"]
    show ?thesis by auto
  next
    case init_failure
    from init_frame_failure_header [of fl co lv _ _ _] init_failure(5)
    have "\<exists>h. header out = Some h \<and> timestamp_sec h = Some (clock co 0)" by simp
    with init_failure(1,4) show ?thesis by simp
  next
    case (planned st s3 frame' pb3)
    from after_plan_result [OF planned(5)] obtain pb6 where
      a: "seq_num s' = seq_num s3"
        "frame_history s' = frame_history s3 @ [(SequenceNum frame', frame'\<lparr>frame_trajectory := out\<rparr>)]"
        "out = FillPlanningPb fl co lv (last_publishable_trajectory s3) (clock co 0) (clock co 3) pb6"
      by blast
    from fill_header_header [of lv "clock co 0" pb6] a(3)
    have h: "\<exists>h. header out = Some h \<and> timestamp_sec h = Some (clock co 0)" by auto
    from Plan_result [OF planned(4)] have
      p: "seq_num s3 = seq_num s + 1" "frame_history s3 = frame_history s"
         "SequenceNum frame' = word_of_nat (seq_num s)"
      by simp_all
    have "frame_trajectory (frame'\<lparr>frame_trajectory := out\<rparr>) = out" by simp
    with h a(1,2) p planned(1) show ?thesis by auto
  qed
  with Inr r show ?thesis by simp
qed

text \<open>The claim C3 as stated fails on a cycle whose vehicle state is invalid: the output
  has its header, but nothing is archived.\<close>

theorem RunOnce_invalid_state_not_archived:
  "\<exists>s' out h. RunOnce (sample_flags False False)
       (sample_collaborators (sample_vehicle NaN (Finite 0)) Status_OK all_drive False)
       sample_local_view sample_state default_ADCTrajectory = Inr (s', out)
     \<and> header out = Some h \<and> timestamp_sec h = Some 0
     \<and> frame_history sample_state = [] \<and> frame_history s' = []
     \<and> seq_num s' = seq_num sample_state"
  by (simp add: cycle_eval sample_vehicle_def)

theorem RunOnce_archives_witness:
  "\<exists>s' out frame. RunOnce (sample_flags True False)
       (sample_collaborators (sample_vehicle (Finite 0) (Finite 0))
          (Status PLANNING_ERROR ''no open space'') all_drive False)
       sample_local_view sample_state default_ADCTrajectory = Inr (s', out)
     \<and> IsVehicleStateValid (cycle_vehicle_state (sample_flags True False)
          (sample_collaborators (sample_vehicle (Finite 0) (Finite 0))
             (Status PLANNING_ERROR ''no open space'') all_drive False))
     \<and> seq_num s' = 1
     \<and> frame_history s' = [(0, frame)] \<and> frame_trajectory frame = out"
proof -
  let ?fl = "sample_flags True False"
  let ?co = "sample_collaborators (sample_vehicle (Finite 0) (Finite 0))
          (Status PLANNING_ERROR ''no open space'') all_drive False"
  have "\<exists>s' out. RunOnce ?fl ?co sample_local_view sample_state default_ADCTrajectory = Inr (s', out)"
    by (simp add: cycle_eval sample_vehicle_def Let_def)
  then obtain s' out where
    run: "RunOnce ?fl ?co sample_local_view sample_state default_ADCTrajectory = Inr (s', out)"
    by blast
  have valid: "IsVehicleStateValid (cycle_vehicle_state ?fl ?co)"
    by (simp add: cycle_eval sample_vehicle_def Let_def)
  from RunOnce_archives [where fl = ?fl and co = ?co and lv = sample_local_view
      and s = sample_state and trajectory_pb = default_ADCTrajectory] run valid
  have "seq_num s' = seq_num sample_state + 1
     \<and> (\<exists>frame. frame_history s' = frame_history sample_state @ [(word_of_nat (seq_num sample_state), frame)]
           \<and> frame_trajectory frame = out)"
    by simp
  then have "seq_num s' = 1 \<and> (\<exists>frame. frame_history s' = [(0, frame)] \<and> frame_trajectory frame = out)"
    by (simp add: sample_state_def)
  with run valid show ?thesis by blast
qed

subsection \<open>The vehicle state gate\<close>

text \<open>
  C6 (as amended). The claim: the gate fails the cycle if and only if some field among
  position, heading, curvature, linear velocity and linear acceleration is non-finite; a
  state with an infinite field is rejected. What holds on the code: the gate tests
  \<^verbatim>\<open>std::isnan\<close> only. The state is rejected if and only if one of the seven fields is
  NaN; the cycle then returns the failure output (status saved, header filled) with the
  members unchanged, and a cycle whose state has no NaN field goes on: when it returns it
  has changed the members. An infinite field does not fail the cycle.
\<close>

theorem RunOnce_vehicle_state_gate:
  "IsVehicleStateValid vs =
     (\<not> (isnan (vs_x vs) \<or> isnan (vs_y vs) \<or> isnan (vs_z vs) \<or> isnan (vs_heading vs)
         \<or> isnan (vs_kappa vs) \<or> isnan (vs_linear_velocity vs)
         \<or> isnan (vs_linear_acceleration vs)))
   \<and> (case RunOnce fl co lv s trajectory_pb of
        Inl f \<Rightarrow> IsVehicleStateValid (cycle_vehicle_state fl co)
      | Inr r \<Rightarrow>
          (r = (s, FillPlanningPb fl co lv (last_publishable_trajectory s) (clock co 0) (clock co 1)
                     (save_status (Update co) trajectory_pb)))
          = (\<not> IsVehicleStateValid (cycle_vehicle_state fl co)))"
proof -
  have gate: "IsVehicleStateValid vs =
     (\<not> (isnan (vs_x vs) \<or> isnan (vs_y vs) \<or> isnan (vs_z vs) \<or> isnan (vs_heading vs)
         \<or> isnan (vs_kappa vs) \<or> isnan (vs_linear_velocity vs)
         \<or> isnan (vs_linear_acceleration vs)))"
    by (simp add: IsVehicleStateValid_def)
  have run: "case RunOnce fl co lv s trajectory_pb of
        Inl f \<Rightarrow> IsVehicleStateValid (cycle_vehicle_state fl co)
      | Inr r \<Rightarrow>
          (r = (s, FillPlanningPb fl co lv (last_publishable_trajectory s) (clock co 0) (clock co 1)
                     (save_status (Update co) trajectory_pb)))
          = (\<not> IsVehicleStateValid (cycle_vehicle_state fl co))"
  proof (cases "RunOnce fl co lv s trajectory_pb")
    case (Inl f)
    then show ?thesis
      using RunOnce_invalid [of fl co lv s trajectory_pb] by auto
  next
    case (Inr r)
    obtain s' out where r: "r = (s', out)" by (cases r)
    from Inr r have "RunOnce fl co lv s trajectory_pb = Inr (s', out)" by simp
    then have "((s', out) = (s, FillPlanningPb fl co lv (last_publishable_trajectory s) (clock co 0)
                     (clock co 1) (save_status (Update co) trajectory_pb)))
          = (\<not> IsVehicleStateValid (cycle_vehicle_state fl co))"
    proof (cases rule: RunOnce_Inr_cases)
      case invalid
      then show ?thesis by simp
    next
      case init_failure
      from init_failure(4) have "seq_num s' = seq_num s + 1" by simp
      then have "s' \<noteq> s" by auto
      with init_failure(1) show ?thesis by simp
    next
      case (planned st s3 frame' pb3)
      from after_plan_result [OF planned(5)] Plan_result [OF planned(4)]
      have "seq_num s' = seq_num s + 1" by simp
      then have "s' \<noteq> s" by auto
      with planned(1) show ?thesis by simp
    qed
    with Inr r show ?thesis by simp
  qed
  from gate run show ?thesis by blast
qed

text \<open>The claim C6 as stated fails on a state with an infinite coordinate: the gate lets
  it pass and the cycle goes on to the frame initialisation.\<close>

theorem RunOnce_infinite_state_accepted:
  "\<not> isfinite (vs_x (sample_vehicle PosInf (Finite 0)))
   \<and> IsVehicleStateValid (sample_vehicle PosInf (Finite 0))
   \<and> (\<exists>s' out. RunOnce (sample_flags False False)
         (sample_collaborators (sample_vehicle PosInf (Finite 0)) Status_OK all_drive False)
         sample_local_view sample_state default_ADCTrajectory = Inr (s', out)
       \<and> seq_num s' = 1 \<and> length (frame_history s') = 1
       \<and> gear out = Some GEAR_DRIVE \<and> length (trajectory_point out) = 3)"
  by (simp add: cycle_eval TrajectoryPartition_def partition_eval closest_eval
     all_drive_def BuildPredictedEnvironment_def BuildPredictedEnvironment_loop.simps
     IsCollisionFreeTrajectory_def collision_free_from.simps ego_box_def Shift_def)

subsection \<open>The sensor timestamps of the header\<close>

lemma init_frame_failure_sensor_timestamps:
  "\<exists>h. header (init_frame_failure fl co lv s st pb) = Some h
     \<and> sensor_timestamps h =
         (if prediction_obstacles_header lv = None then (Some 0, Some 0, Some 0)
          else if publish_estop fl then (None, None, None)
          else sensor_timestamps (mutable_header pb))"
proof -
  let ?X = "if publish_estop fl then save_status st (set_estop st default_ADCTrajectory)
            else save_status st (pb\<lparr>not_ready_reason := Some (ToString co st)\<rparr>)"
  let ?Y = "FillPlanningPb fl co lv (last_publishable_trajectory s) (clock co 0) (clock co 2) ?X"
  have out: "init_frame_failure fl co lv s st pb
      = FillPlanningPb fl co lv (last_publishable_trajectory s) (clock co 0) (clock co 3) ?Y"
    by (simp add: init_frame_failure_def Let_def)
  from FillPlanningPb_sensor_timestamps [of fl co lv "last_publishable_trajectory s" "clock co 0" "clock co 2" ?X]
  obtain hy where hy: "header ?Y = Some hy"
    "sensor_timestamps hy = (if prediction_obstacles_header lv = None then (Some 0, Some 0, Some 0)
          else sensor_timestamps (mutable_header ?X))"
    by blast
  have x: "sensor_timestamps (mutable_header ?X)
      = (if publish_estop fl then (None, None, None) else sensor_timestamps (mutable_header pb))"
    by (simp add: save_status_def set_estop_def default_ADCTrajectory_def mutable_header_def
        default_Header_def sensor_timestamps_def)
  from FillPlanningPb_sensor_timestamps [of fl co lv "last_publishable_trajectory s" "clock co 0" "clock co 3" ?Y]
  obtain h where h: "header (init_frame_failure fl co lv s st pb) = Some h"
    "sensor_timestamps h = (if prediction_obstacles_header lv = None then (Some 0, Some 0, Some 0)
          else sensor_timestamps (mutable_header ?Y))"
    unfolding out by blast
  have "mutable_header ?Y = hy" using hy(1) by (rule mutable_header_Some)
  with h hy(2) x show ?thesis by auto
qed

text \<open>
  C9. In the header of every cycle output, the lidar, camera and radar timestamps are set
  from the prediction-obstacles message exactly when that message has no header, and the
  values set are then the defaults (0). When the message has a header, \<^verbatim>\<open>FillPlanningPb\<close>
  leaves the three fields as the record has them: as in the record that \<^verbatim>\<open>RunOnce\<close> was
  given, hence unset when that record has them unset, and unset in the fresh estop record
  of a failed frame initialisation.
\<close>

theorem RunOnce_sensor_timestamps:
  assumes "RunOnce fl co lv s trajectory_pb = Inr (s', out)"
  shows "\<exists>h. header out = Some h
     \<and> sensor_timestamps h =
         (if prediction_obstacles_header lv = None
          then (Some (get_lidar_timestamp (prediction_obstacles_header lv)),
                Some (get_camera_timestamp (prediction_obstacles_header lv)),
                Some (get_radar_timestamp (prediction_obstacles_header lv)))
          else if IsVehicleStateValid (cycle_vehicle_state fl co)
                  \<and> \<not> ok (fst (InitFrame co (word_of_nat (seq_num s)))) \<and> publish_estop fl
          then (None, None, None)
          else sensor_timestamps (mutable_header trajectory_pb))
     \<and> (prediction_obstacles_header lv = None \<longrightarrow>
          sensor_timestamps h = (Some 0, Some 0, Some 0))
     \<and> (prediction_obstacles_header lv \<noteq> None
          \<and> sensor_timestamps (mutable_header trajectory_pb) = (None, None, None) \<longrightarrow>
          sensor_timestamps h = (None, None, None))"
proof -
  have zero: "prediction_obstacles_header lv = None \<Longrightarrow>
      (Some (get_lidar_timestamp (prediction_obstacles_header lv)),
       Some (get_camera_timestamp (prediction_obstacles_header lv)),
       Some (get_radar_timestamp (prediction_obstacles_header lv))) = (Some 0, Some 0, Some 0)"
    by (simp add: get_lidar_timestamp_def get_camera_timestamp_def get_radar_timestamp_def)
  have "\<exists>h. header out = Some h
     \<and> sensor_timestamps h =
         (if prediction_obstacles_header lv = None then (Some 0, Some 0, Some 0)
          else if IsVehicleStateValid (cycle_vehicle_state fl co)
                  \<and> \<not> ok (fst (InitFrame co (word_of_nat (seq_num s)))) \<and> publish_estop fl
          then (None, None, None)
          else sensor_timestamps (mutable_header trajectory_pb))"
    using assms
  proof (cases rule: RunOnce_Inr_cases)
    case invalid
    from FillPlanningPb_sensor_timestamps [of fl co lv "last_publishable_trajectory s"
        "clock co 0" "clock co 1" "save_status (Update co) trajectory_pb"] invalid(1,3)
    show ?thesis by auto
  next
    case init_failure
    from init_frame_failure_sensor_timestamps [of fl co lv
        "(update_routing lv s)\<lparr>seq_num := seq_num s + 1\<rparr>"
        "fst (InitFrame co (word_of_nat (seq_num s)))"
        "trajectory_pb\<lparr>init_frame_time_ms := Some (clock co 1 - clock co 0)\<rparr>"]
      init_failure(1,3,5)
    show ?thesis by (auto simp add: mutable_header_def)
  next
    case (planned st s3 frame' pb3)
    from after_plan_result [OF planned(5)] obtain pb6 where
      a: "out = FillPlanningPb fl co lv (last_publishable_trajectory s3) (clock co 0) (clock co 3) pb6"
         "sensor_timestamps (mutable_header pb6) = sensor_timestamps (mutable_header pb3)"
      by blast
    from Plan_result [OF planned(4)] have "header pb3 = header trajectory_pb" by simp
    then have b: "mutable_header pb3 = mutable_header trajectory_pb"
      by (simp add: mutable_header_def)
    from FillPlanningPb_sensor_timestamps [of fl co lv "last_publishable_trajectory s3"
        "clock co 0" "clock co 3" pb6] a b planned(3)
    show ?thesis by auto
  qed
  then obtain h where h: "header out = Some h"
    "sensor_timestamps h =
         (if prediction_obstacles_header lv = None then (Some 0, Some 0, Some 0)
          else if IsVehicleStateValid (cycle_vehicle_state fl co)
                  \<and> \<not> ok (fst (InitFrame co (word_of_nat (seq_num s)))) \<and> publish_estop fl
          then (None, None, None)
          else sensor_timestamps (mutable_header trajectory_pb))"
    by blast
  show ?thesis
    using h zero by (intro exI [of _ h]) auto
qed

theorem RunOnce_sensor_timestamps_witness:
  "\<exists>s' out h. RunOnce (sample_flags False False)
       (sample_collaborators (sample_vehicle (Finite 0) (Finite 0)) Status_OK all_drive False)
       (sample_local_view\<lparr>prediction_obstacles_header := Some (default_Header\<lparr>lidar_timestamp := Some 7\<rparr>)\<rparr>)
       sample_state default_ADCTrajectory = Inr (s', out)
     \<and> prediction_obstacles_header
         (sample_local_view\<lparr>prediction_obstacles_header := Some (default_Header\<lparr>lidar_timestamp := Some 7\<rparr>)\<rparr>)
         \<noteq> None
     \<and> sensor_timestamps (mutable_header default_ADCTrajectory) = (None, None, None)
     \<and> header out = Some h \<and> sensor_timestamps h = (None, None, None)"
proof -
  let ?fl = "sample_flags False False"
  let ?co = "sample_collaborators (sample_vehicle (Finite 0) (Finite 0)) Status_OK all_drive False"
  let ?lv = "sample_local_view\<lparr>prediction_obstacles_header := Some (default_Header\<lparr>lidar_timestamp := Some 7\<rparr>)\<rparr>"
  have "\<exists>s' out. RunOnce ?fl ?co ?lv sample_state default_ADCTrajectory = Inr (s', out)"
    by (simp add: cycle_eval TrajectoryPartition_def partition_eval closest_eval
      all_drive_def BuildPredictedEnvironment_def BuildPredictedEnvironment_loop.simps
      IsCollisionFreeTrajectory_def collision_free_from.simps ego_box_def Shift_def)
  then obtain s' out where
    run: "RunOnce ?fl ?co ?lv sample_state default_ADCTrajectory = Inr (s', out)"
    by blast
  have p: "prediction_obstacles_header ?lv \<noteq> None" by simp
  have u: "sensor_timestamps (mutable_header default_ADCTrajectory) = (None, None, None)"
    by (simp add: mutable_header_def default_ADCTrajectory_def default_Header_def sensor_timestamps_def)
  from RunOnce_sensor_timestamps [OF run] p u
  obtain h where "header out = Some h" "sensor_timestamps h = (None, None, None)"
    by blast
  with run p u show ?thesis by blast
qed

subsection \<open>The frame-initialisation failure path\<close>

text \<open>The record that the failure branch fills: the fresh estop record, or the output
  record with the not-ready decision.\<close>

lemma init_frame_failure_twice:
  "init_frame_failure fl co lv s st pb =
     FillPlanningPb fl co lv (last_publishable_trajectory s) (clock co 0) (clock co 3)
       (FillPlanningPb fl co lv (last_publishable_trajectory s) (clock co 0) (clock co 2)
          (if publish_estop fl then save_status st (set_estop st default_ADCTrajectory)
           else save_status st (pb\<lparr>not_ready_reason := Some (ToString co st)\<rparr>)))"
  by (simp add: init_frame_failure_def Let_def)

text \<open>
  C10. When \<^verbatim>\<open>InitFrame\<close> fails, \<^verbatim>\<open>RunOnce\<close> returns the record filled twice by
  \<^verbatim>\<open>FillPlanningPb\<close>, with two readings of the clock: every point of the output (the points
  of the record, or the fallback points substituted by the first call) has had both
  corrections \<open>start - now\<close> subtracted from its relative time.
\<close>

theorem RunOnce_init_frame_failure_fills_twice:
  assumes "IsVehicleStateValid (cycle_vehicle_state fl co)"
    and "cycle_stitching_trajectory fl co s \<noteq> []"
    and "\<not> ok (fst (InitFrame co (word_of_nat (seq_num s))))"
    and "x = (if publish_estop fl
              then save_status (fst (InitFrame co (word_of_nat (seq_num s))))
                     (set_estop (fst (InitFrame co (word_of_nat (seq_num s)))) default_ADCTrajectory)
              else save_status (fst (InitFrame co (word_of_nat (seq_num s))))
                     (trajectory_pb\<lparr>init_frame_time_ms := Some (clock co 1 - clock co 0),
                        not_ready_reason := Some (ToString co (fst (InitFrame co (word_of_nat (seq_num s)))))\<rparr>))"
    and "base = points_to_publish fl co lv (last_publishable_trajectory s) (clock co 0) x"
  shows "\<exists>s' out. RunOnce fl co lv s trajectory_pb = Inr (s', out)
     \<and> out = FillPlanningPb fl co lv (last_publishable_trajectory s) (clock co 0) (clock co 3)
               (FillPlanningPb fl co lv (last_publishable_trajectory s) (clock co 0) (clock co 2) x)
     \<and> length (trajectory_point out) = length base
     \<and> (\<forall>k<length base. trajectory_point out ! k
           = (base ! k)\<lparr>relative_time :=
                relative_time (base ! k) - (clock co 0 - clock co 2) - (clock co 0 - clock co 3)\<rparr>)"
proof -
  let ?st = "fst (InitFrame co (word_of_nat (seq_num s)))"
  let ?s2 = "(update_routing lv s)\<lparr>seq_num := seq_num s + 1\<rparr>"
  let ?out = "init_frame_failure fl co lv ?s2 ?st
                (trajectory_pb\<lparr>init_frame_time_ms := Some (clock co 1 - clock co 0)\<rparr>)"
  have run: "RunOnce fl co lv s trajectory_pb
      = Inr (archive (snd (InitFrame co (word_of_nat (seq_num s)))) ?out ?s2, ?out)"
    using RunOnce_init_frame_failure [OF assms(1-3), of lv trajectory_pb] by (simp add: Let_def)
  have out: "?out = FillPlanningPb fl co lv (last_publishable_trajectory s) (clock co 0) (clock co 3)
               (FillPlanningPb fl co lv (last_publishable_trajectory s) (clock co 0) (clock co 2) x)"
    by (simp add: init_frame_failure_twice assms(4))
  have pts: "trajectory_point ?out
      = map (shift_relative_time (clock co 0 - clock co 3))
          (map (shift_relative_time (clock co 0 - clock co 2)) base)"
    unfolding out assms(5) by (rule FillPlanningPb_twice_points)
  have "\<forall>k<length base. trajectory_point ?out ! k
           = (base ! k)\<lparr>relative_time :=
                relative_time (base ! k) - (clock co 0 - clock co 2) - (clock co 0 - clock co 3)\<rparr>"
    unfolding pts by (simp add: shift_relative_time_def)
  moreover have "length (trajectory_point ?out) = length base" unfolding pts by simp
  ultimately show ?thesis using run out by simp
qed

theorem RunOnce_init_frame_failure_fills_twice_witness:
  "\<exists>s' out. RunOnce (sample_flags True True)
       (sample_collaborators (sample_vehicle (Finite 0) (Finite 0))
          (Status PLANNING_ERROR ''no open space'') all_drive False)
       sample_local_view sample_state default_ADCTrajectory = Inr (s', out)
     \<and> IsVehicleStateValid (cycle_vehicle_state (sample_flags True True)
          (sample_collaborators (sample_vehicle (Finite 0) (Finite 0))
             (Status PLANNING_ERROR ''no open space'') all_drive False))
     \<and> points_to_publish (sample_flags True True)
          (sample_collaborators (sample_vehicle (Finite 0) (Finite 0))
             (Status PLANNING_ERROR ''no open space'') all_drive False)
          sample_local_view None 0
          (save_status (Status PLANNING_ERROR ''no open space'')
             (set_estop (Status PLANNING_ERROR ''no open space'') default_ADCTrajectory))
         = [sample_point 0 0 0 5]
     \<and> trajectory_point out = [sample_point 0 0 0 10]"
proof -
  let ?fl = "sample_flags True True"
  let ?co = "sample_collaborators (sample_vehicle (Finite 0) (Finite 0))
          (Status PLANNING_ERROR ''no open space'') all_drive False"
  let ?x = "save_status (Status PLANNING_ERROR ''no open space'')
             (set_estop (Status PLANNING_ERROR ''no open space'') default_ADCTrajectory)"
  have valid: "IsVehicleStateValid (cycle_vehicle_state ?fl ?co)"
    by (simp add: cycle_eval sample_vehicle_def)
  have stitch: "cycle_stitching_trajectory ?fl ?co sample_state \<noteq> []"
    by (simp add: cycle_eval)
  have st: "fst (InitFrame ?co (word_of_nat (seq_num sample_state)))
      = Status PLANNING_ERROR ''no open space''"
    by (simp add: cycle_eval Let_def)
  then have fail: "\<not> ok (fst (InitFrame ?co (word_of_nat (seq_num sample_state))))" by simp
  have x: "?x = (if publish_estop ?fl
              then save_status (fst (InitFrame ?co (word_of_nat (seq_num sample_state))))
                     (set_estop (fst (InitFrame ?co (word_of_nat (seq_num sample_state)))) default_ADCTrajectory)
              else save_status (fst (InitFrame ?co (word_of_nat (seq_num sample_state))))
                     (default_ADCTrajectory\<lparr>init_frame_time_ms := Some (clock ?co 1 - clock ?co 0),
                        not_ready_reason := Some (ToString ?co (fst (InitFrame ?co (word_of_nat (seq_num sample_state)))))\<rparr>))"
    unfolding st by (simp add: sample_flags_def)
  have base: "points_to_publish ?fl ?co sample_local_view None 0 ?x = [sample_point 0 0 0 5]"
    by (simp add: points_to_publish_def cycle_eval)
  then have base': "[sample_point 0 0 0 5]
      = points_to_publish ?fl ?co sample_local_view (last_publishable_trajectory sample_state)
          (clock ?co 0) ?x"
    by (simp add: sample_state_def sample_collaborators_def)
  from RunOnce_init_frame_failure_fills_twice [OF valid stitch fail x base']
  obtain s' out where run: "RunOnce ?fl ?co sample_local_view sample_state default_ADCTrajectory
      = Inr (s', out)"
    and len: "length (trajectory_point out) = length [sample_point 0 0 0 5]"
    and pt: "\<forall>k<length [sample_point 0 0 0 5]. trajectory_point out ! k
           = ([sample_point 0 0 0 5] ! k)\<lparr>relative_time :=
                relative_time ([sample_point 0 0 0 5] ! k) - (clock ?co 0 - clock ?co 2)
                  - (clock ?co 0 - clock ?co 3)\<rparr>"
    by blast
  from pt have "trajectory_point out ! 0 = sample_point 0 0 0 10"
    by (simp add: sample_collaborators_def sample_point_def)
  with len have "trajectory_point out = [sample_point 0 0 0 10]"
    by (cases "trajectory_point out") simp_all
  with run valid base show ?thesis by blast
qed

subsection \<open>Cycles that do not return\<close>

text \<open>Both out-of-range reads are reachable from \<^verbatim>\<open>RunOnce\<close>: a planned trajectory whose
  velocities are all ambiguous, and a planned trajectory of three points checked against a
  predicted environment of one snapshot (horizon 1, resolution 1).\<close>

lemma RunOnce_all_ambiguous:
  "RunOnce (sample_flags False False)
     (sample_collaborators (sample_vehicle (Finite 0) (Finite 0)) Status_OK all_ambiguous False)
     sample_local_view sample_state default_ADCTrajectory = Inl OutOfRange"
  by (simp add: cycle_eval TrajectoryPartition_def partition_eval all_ambiguous_def
     sample_vehicle_def)

lemma RunOnce_missing_snapshot:
  "RunOnce ((sample_flags False False)\<lparr>trajectory_time_length := 1\<rparr>)
     (sample_collaborators (sample_vehicle (Finite 0) (Finite 0)) Status_OK all_drive False)
     sample_local_view sample_state default_ADCTrajectory = Inl OutOfRange"
  by (simp add: cycle_eval TrajectoryPartition_def partition_eval closest_eval
     all_drive_def BuildPredictedEnvironment_def BuildPredictedEnvironment_loop.simps
     IsCollisionFreeTrajectory_def collision_free_from.simps ego_box_def Shift_def)

end
